theory Spec2Isabelle
  imports Main
begin

section \<open>Errors, HTTP responses and remote calls\<close>

text \<open>
  Both resources are sequential Go functions that talk to a remote management API through an
  SDK client and read or write the Terraform resource data. The embedding makes every effect
  explicit: an operation takes the resource data and a \<open>world\<close> (the remote state together
  with the log of the remote calls issued so far) and returns its outcome, the new resource
  data and the new world. A Go \<open>error\<close> is a value of \<open>go_error\<close>; a nil pointer
  dereference is the outcome \<open>Panic\<close>.
\<close>

text \<open>The text of an error that an SDK client call returned.\<close>

type_synonym remote_error = string

text \<open>\<open>*http.Response\<close> / \<open>autorest.Response\<close>: nil, or a response with a status code.\<close>

type_synonym http_response = "nat option"

text \<open>
  Modelled from the spec: \<open>utils.ResponseWasNotFound\<close> (package \<open>utils\<close> of this
  repository) is not among the source files; it recognises the "not found" response. Like
  \<open>response.WasNotFound\<close> of go-azure-helpers, which the Container App Environment uses,
  it is true exactly for a non-nil response whose status code is 404.
\<close>

definition WasNotFound :: "http_response \<Rightarrow> bool" where
  "WasNotFound resp = (case resp of None \<Rightarrow> False | Some code \<Rightarrow> code = 404)"

record ManagedEnvironmentId =
  SubscriptionId :: string
  ResourceGroupName :: string
  EnvironmentName :: string

definition NewManagedEnvironmentID :: "string \<Rightarrow> string \<Rightarrow> string \<Rightarrow> ManagedEnvironmentId" where
  "NewManagedEnvironmentID subscriptionId resourceGroupName environmentName =
     \<lparr>SubscriptionId = subscriptionId, ResourceGroupName = resourceGroupName,
      EnvironmentName = environmentName\<rparr>"

text \<open>\<open>loganalyticsParse.LogAnalyticsWorkspaceId\<close>, the parsed form of a workspace ID.\<close>

record ParsedLogAnalyticsWorkspaceId =
  la_SubscriptionId :: string
  la_ResourceGroup :: string
  la_WorkspaceName :: string

text \<open>
  \<open>fmt.Errorf\<close> is kept symbolic: the format string of the source and its arguments in order.
  \<open>RemoteError\<close> is an error as an SDK client call returned it, \<open>LocalError\<close> one that a
  local helper (ID parsing, decoding, encoding) returned, \<open>ImportAsExistsError\<close> the
  import-required condition.
\<close>

datatype go_error =
    RemoteError remote_error
  | LocalError string
  | ImportAsExistsError string ManagedEnvironmentId
  | Errorf string "fmt_arg list"
and fmt_arg =
    AManagedEnvironmentId ManagedEnvironmentId
  | ALogAnalyticsWorkspaceId ParsedLogAnalyticsWorkspaceId
  | AString string
  | AErr "go_error option"

text \<open>What a Go function of type \<open>func(...) error\<close> does: it returns, or it panics.\<close>

datatype outcome = Returned "go_error option" | Panic

text \<open>Lifting the \<open>err\<close> a client call returned into the \<open>%+v\<close> argument that wraps it.\<close>

definition AErrRemote :: "remote_error option \<Rightarrow> fmt_arg" where
  "AErrRemote err = AErr (map_option RemoteError err)"

section \<open>Helpers of the \<open>utils\<close> and \<open>tags\<close> packages\<close>

text \<open>
  Modelled from the spec: the package \<open>utils\<close> of this repository (\<open>utils.String\<close>,
  \<open>utils.Bool\<close>, \<open>utils.NormalizeNilableString\<close>, \<open>utils.NormaliseNilableBool\<close>) is
  not among the source files. \<open>String\<close> and \<open>Bool\<close> return a pointer to their argument;
  the two normalising functions are the null guards of the field flattening: a nil pointer
  gives the zero value, any other pointer the value it points to.
\<close>

definition utils_String :: "string \<Rightarrow> string option" where
  "utils_String input = Some input"

definition utils_Bool :: "bool \<Rightarrow> bool option" where
  "utils_Bool input = Some input"

definition NormalizeNilableString :: "string option \<Rightarrow> string" where
  "NormalizeNilableString input = (case input of None \<Rightarrow> [] | Some s \<Rightarrow> s)"

definition NormaliseNilableBool :: "bool option \<Rightarrow> bool" where
  "NormaliseNilableBool input = (case input of None \<Rightarrow> False | Some b \<Rightarrow> b)"

text \<open>
  Tags: the schema admits string values only, so the Terraform side
  (\<open>map[string]interface{}\<close>) and the SDK side (\<open>*map[string]string\<close>) are both maps from
  strings to strings, the SDK side behind a pointer. \<open>tags.Expand\<close> copies into a fresh map
  and returns its address; \<open>tags.Flatten\<close> gives the empty map for nil.
\<close>

type_synonym tags = "string \<rightharpoonup> string"

definition tags_Expand :: "tags \<Rightarrow> tags option" where
  "tags_Expand input = Some input"

definition tags_Flatten :: "tags option \<Rightarrow> tags" where
  "tags_Flatten input = (case input of None \<Rightarrow> Map.empty | Some t \<Rightarrow> t)"

section \<open>Container App Environment: data\<close>

text \<open>The Terraform-side model, field by field as in the source.\<close>

record ContainerAppEnvironmentModel =
  Name :: string
  ResourceGroup :: string
  Location :: string
  LogAnalyticsWorkspaceId :: string
  InfrastructureSubnetId :: string
  InternalLoadBalancerEnabled :: bool
  Tags :: tags
  DefaultDomain :: string
  DockerBridgeCidr :: string
  PlatformReservedCidr :: string
  PlatformReservedDnsIP :: string
  StaticIP :: string
  CreatedAt :: string
  CreatedBy :: string
  CreatedByType :: string
  LastModifiedAt :: string
  LastModifiedBy :: string
  LastModifiedByType :: string

text \<open>The value of \<open>var state ContainerAppEnvironmentModel\<close>: every field zero.\<close>

definition zero_ContainerAppEnvironmentModel :: ContainerAppEnvironmentModel where
  "zero_ContainerAppEnvironmentModel =
     \<lparr>Name = [], ResourceGroup = [], Location = [], LogAnalyticsWorkspaceId = [],
      InfrastructureSubnetId = [], InternalLoadBalancerEnabled = False, Tags = Map.empty,
      DefaultDomain = [], DockerBridgeCidr = [], PlatformReservedCidr = [],
      PlatformReservedDnsIP = [], StaticIP = [], CreatedAt = [], CreatedBy = [],
      CreatedByType = [], LastModifiedAt = [], LastModifiedBy = [], LastModifiedByType = []\<rparr>"

text \<open>
  The SDK's types (package \<open>managedenvironments\<close>, an external library), with the fields the
  source reads or writes. A Go pointer is an \<open>option\<close>. Field names carry a prefix because
  record fields share one name space.
\<close>

record VnetConfiguration =
  vnet_DockerBridgeCidr :: "string option"
  vnet_InfrastructureSubnetId :: "string option"
  vnet_Internal :: "bool option"
  vnet_PlatformReservedCidr :: "string option"
  vnet_PlatformReservedDnsIP :: "string option"

definition empty_VnetConfiguration :: VnetConfiguration where
  "empty_VnetConfiguration =
     \<lparr>vnet_DockerBridgeCidr = None, vnet_InfrastructureSubnetId = None, vnet_Internal = None,
      vnet_PlatformReservedCidr = None, vnet_PlatformReservedDnsIP = None\<rparr>"

record LogAnalyticsConfiguration =
  lac_CustomerId :: "string option"
  lac_SharedKey :: "string option"

record AppLogsConfiguration =
  alc_Destination :: "string option"
  alc_LogAnalyticsConfiguration :: "LogAnalyticsConfiguration option"

record ManagedEnvironmentProperties =
  props_AppLogsConfiguration :: "AppLogsConfiguration option"
  props_DefaultDomain :: "string option"
  props_StaticIP :: "string option"
  props_VnetConfiguration :: "VnetConfiguration option"

record SystemData =
  sys_CreatedAt :: string
  sys_CreatedBy :: string
  sys_CreatedByType :: string
  sys_LastModifiedAt :: string
  sys_LastModifiedBy :: string
  sys_LastModifiedbyType :: string

record ManagedEnvironment =
  me_Location :: string
  me_Name :: "string option"
  me_Properties :: "ManagedEnvironmentProperties option"
  me_SystemData :: "SystemData option"
  me_Tags :: "tags option"

record GetOperationResponse =
  HttpResponse :: http_response
  Model :: "ManagedEnvironment option"

text \<open>The Log Analytics SDK's answers, as far as \<open>Create\<close> looks at them.\<close>

record WorkspaceProperties =
  CustomerID :: "string option"

record Workspace =
  ws_WorkspaceProperties :: "WorkspaceProperties option"

record SharedKeys =
  PrimarySharedKey :: "string option"

section \<open>Synapse Workspace AAD Admin: data\<close>

record AadAdminProperties =
  TenantID :: "string option"
  Login :: "string option"
  AdministratorType :: "string option"
  Sid :: "string option"

record WorkspaceAadAdminInfo =
  Response :: http_response
  info_AadAdminProperties :: "AadAdminProperties option"

record WorkspaceId =
  wid_SubscriptionId :: string
  wid_ResourceGroup :: string
  wid_Name :: string

record WorkspaceAADAdminId =
  aid_SubscriptionId :: string
  aid_ResourceGroup :: string
  aid_WorkspaceName :: string
  aid_AdministratorName :: string

definition NewWorkspaceID :: "string \<Rightarrow> string \<Rightarrow> string \<Rightarrow> WorkspaceId" where
  "NewWorkspaceID subscriptionId resourceGroup name =
     \<lparr>wid_SubscriptionId = subscriptionId, wid_ResourceGroup = resourceGroup, wid_Name = name\<rparr>"

definition NewWorkspaceAADAdminID :: "string \<Rightarrow> string \<Rightarrow> string \<Rightarrow> string \<Rightarrow> WorkspaceAADAdminId" where
  "NewWorkspaceAADAdminID subscriptionId resourceGroup workspaceName administratorName =
     \<lparr>aid_SubscriptionId = subscriptionId, aid_ResourceGroup = resourceGroup,
      aid_WorkspaceName = workspaceName, aid_AdministratorName = administratorName\<rparr>"

text \<open>The handle of a long-running operation that \<open>CreateOrUpdate\<close> and \<open>Delete\<close> return.\<close>

type_synonym future = nat

section \<open>The remote world\<close>

text \<open>Every call the two resources make on an SDK client, with its arguments.\<close>

datatype remote_call =
    ManagedEnvironments_Get ManagedEnvironmentId
  | ManagedEnvironments_CreateOrUpdateThenPoll ManagedEnvironmentId ManagedEnvironment
  | ManagedEnvironments_DeleteThenPoll ManagedEnvironmentId
  | Workspaces_Get string string
  | SharedKeys_GetSharedKeys string string
  | WorkspaceAadAdmins_Get string string
  | WorkspaceAadAdmins_CreateOrUpdate string string WorkspaceAadAdminInfo
  | WorkspaceAadAdmins_Delete string string
  | Future_WaitForCompletionRef future

text \<open>
  The world: the state of the remote service, of any type, and the log of the calls made on
  it, each with the error it returned.
\<close>

record 'r world =
  remote :: 'r
  calls :: "(remote_call \<times> remote_error option) list"

definition logged :: "remote_call \<Rightarrow> remote_error option \<Rightarrow> 'r \<Rightarrow> 'r world \<Rightarrow> 'r world" where
  "logged c err r w = \<lparr>remote = r, calls = calls w @ [(c, err)]\<rparr>"

text \<open>
  The SDK clients are parameters: each method is a function of its arguments and the remote
  state that returns its results and the new remote state. Nothing is assumed about them.
\<close>

record 'r Client =
  ManagedEnvironmentClient_Get ::
    "ManagedEnvironmentId \<Rightarrow> 'r \<Rightarrow> (GetOperationResponse \<times> remote_error option) \<times> 'r"
  ManagedEnvironmentClient_CreateOrUpdateThenPoll ::
    "ManagedEnvironmentId \<Rightarrow> ManagedEnvironment \<Rightarrow> 'r \<Rightarrow> remote_error option \<times> 'r"
  ManagedEnvironmentClient_DeleteThenPoll ::
    "ManagedEnvironmentId \<Rightarrow> 'r \<Rightarrow> remote_error option \<times> 'r"
  WorkspacesClient_Get ::
    "string \<Rightarrow> string \<Rightarrow> 'r \<Rightarrow> (Workspace \<times> remote_error option) \<times> 'r"
  SharedKeysClient_GetSharedKeys ::
    "string \<Rightarrow> string \<Rightarrow> 'r \<Rightarrow> (SharedKeys \<times> remote_error option) \<times> 'r"
  WorkspaceAadAdminsClient_Get ::
    "string \<Rightarrow> string \<Rightarrow> 'r \<Rightarrow> (WorkspaceAadAdminInfo \<times> remote_error option) \<times> 'r"
  WorkspaceAadAdminsClient_CreateOrUpdate ::
    "string \<Rightarrow> string \<Rightarrow> WorkspaceAadAdminInfo \<Rightarrow> 'r \<Rightarrow> (future \<times> remote_error option) \<times> 'r"
  WorkspaceAadAdminsClient_Delete ::
    "string \<Rightarrow> string \<Rightarrow> 'r \<Rightarrow> (future \<times> remote_error option) \<times> 'r"
  WaitForCompletionRef ::
    "future \<Rightarrow> 'r \<Rightarrow> remote_error option \<times> 'r"

text \<open>A client call in a world: the method runs on the remote state and the call is logged.\<close>

definition client_Get ::
  "'r Client \<Rightarrow> ManagedEnvironmentId \<Rightarrow> 'r world \<Rightarrow> (GetOperationResponse \<times> remote_error option) \<times> 'r world" where
  "client_Get cl ident w =
     (case ManagedEnvironmentClient_Get cl ident (remote w) of
        ((existing, err), r) \<Rightarrow> ((existing, err), logged (ManagedEnvironments_Get ident) err r w))"

definition client_CreateOrUpdateThenPoll ::
  "'r Client \<Rightarrow> ManagedEnvironmentId \<Rightarrow> ManagedEnvironment \<Rightarrow> 'r world \<Rightarrow> remote_error option \<times> 'r world" where
  "client_CreateOrUpdateThenPoll cl ident input w =
     (case ManagedEnvironmentClient_CreateOrUpdateThenPoll cl ident input (remote w) of
        (err, r) \<Rightarrow> (err, logged (ManagedEnvironments_CreateOrUpdateThenPoll ident input) err r w))"

definition client_DeleteThenPoll ::
  "'r Client \<Rightarrow> ManagedEnvironmentId \<Rightarrow> 'r world \<Rightarrow> remote_error option \<times> 'r world" where
  "client_DeleteThenPoll cl ident w =
     (case ManagedEnvironmentClient_DeleteThenPoll cl ident (remote w) of
        (err, r) \<Rightarrow> (err, logged (ManagedEnvironments_DeleteThenPoll ident) err r w))"

definition logAnalyticsClient_Get ::
  "'r Client \<Rightarrow> string \<Rightarrow> string \<Rightarrow> 'r world \<Rightarrow> (Workspace \<times> remote_error option) \<times> 'r world" where
  "logAnalyticsClient_Get cl resourceGroup workspaceName w =
     (case WorkspacesClient_Get cl resourceGroup workspaceName (remote w) of
        ((workspace, err), r) \<Rightarrow>
          ((workspace, err), logged (Workspaces_Get resourceGroup workspaceName) err r w))"

definition sharedKeyClient_GetSharedKeys ::
  "'r Client \<Rightarrow> string \<Rightarrow> string \<Rightarrow> 'r world \<Rightarrow> (SharedKeys \<times> remote_error option) \<times> 'r world" where
  "sharedKeyClient_GetSharedKeys cl resourceGroup workspaceName w =
     (case SharedKeysClient_GetSharedKeys cl resourceGroup workspaceName (remote w) of
        ((keys, err), r) \<Rightarrow>
          ((keys, err), logged (SharedKeys_GetSharedKeys resourceGroup workspaceName) err r w))"

definition aadClient_Get ::
  "'r Client \<Rightarrow> string \<Rightarrow> string \<Rightarrow> 'r world \<Rightarrow> (WorkspaceAadAdminInfo \<times> remote_error option) \<times> 'r world" where
  "aadClient_Get cl resourceGroup workspaceName w =
     (case WorkspaceAadAdminsClient_Get cl resourceGroup workspaceName (remote w) of
        ((aadAdmin, err), r) \<Rightarrow>
          ((aadAdmin, err), logged (WorkspaceAadAdmins_Get resourceGroup workspaceName) err r w))"

definition aadClient_CreateOrUpdate ::
  "'r Client \<Rightarrow> string \<Rightarrow> string \<Rightarrow> WorkspaceAadAdminInfo \<Rightarrow> 'r world \<Rightarrow> (future \<times> remote_error option) \<times> 'r world" where
  "aadClient_CreateOrUpdate cl resourceGroup workspaceName aadAdmin w =
     (case WorkspaceAadAdminsClient_CreateOrUpdate cl resourceGroup workspaceName aadAdmin (remote w) of
        ((fut, err), r) \<Rightarrow>
          ((fut, err),
           logged (WorkspaceAadAdmins_CreateOrUpdate resourceGroup workspaceName aadAdmin) err r w))"

definition aadClient_Delete ::
  "'r Client \<Rightarrow> string \<Rightarrow> string \<Rightarrow> 'r world \<Rightarrow> (future \<times> remote_error option) \<times> 'r world" where
  "aadClient_Delete cl resourceGroup workspaceName w =
     (case WorkspaceAadAdminsClient_Delete cl resourceGroup workspaceName (remote w) of
        ((fut, err), r) \<Rightarrow>
          ((fut, err), logged (WorkspaceAadAdmins_Delete resourceGroup workspaceName) err r w))"

definition future_WaitForCompletionRef ::
  "'r Client \<Rightarrow> future \<Rightarrow> 'r world \<Rightarrow> remote_error option \<times> 'r world" where
  "future_WaitForCompletionRef cl fut w =
     (case WaitForCompletionRef cl fut (remote w) of
        (err, r) \<Rightarrow> (err, logged (Future_WaitForCompletionRef fut) err r w))"

text \<open>
  The pure library functions the source calls and that are not among the source files: the
  parsers and formatters of resource IDs and \<open>location.Normalize\<close>. They are parameters too.
  A parser returns the text of its error or the parsed ID.
\<close>

record Helpers =
  ParseManagedEnvironmentID :: "string \<Rightarrow> string + ManagedEnvironmentId"
  ManagedEnvironmentId_ID :: "ManagedEnvironmentId \<Rightarrow> string"
  location_Normalize :: "string \<Rightarrow> string"
  loganalyticsParse_LogAnalyticsWorkspaceID :: "string \<Rightarrow> string + ParsedLogAnalyticsWorkspaceId"
  parse_WorkspaceID :: "string \<Rightarrow> string + WorkspaceId"
  WorkspaceId_ID :: "WorkspaceId \<Rightarrow> string"
  parse_WorkspaceAADAdminID :: "string \<Rightarrow> string + WorkspaceAADAdminId"
  WorkspaceAADAdminId_ID :: "WorkspaceAADAdminId \<Rightarrow> string"

section \<open>Container App Environment: resource data\<close>

text \<open>
  What an operation sees of \<open>sdk.ResourceMetaData\<close>: the ID in the resource data, the values
  of the fields as \<open>Get\<close> and \<open>Decode\<close> read them, which keys \<open>HasChange\<close> reports,
  whether decoding or encoding fails, and the subscription of the account.
\<close>

record ResourceMetaData =
  ResourceData_Id :: string
  ResourceData_values :: ContainerAppEnvironmentModel
  ResourceData_HasChange :: "string \<Rightarrow> bool"
  decode_error :: "string option"
  encode_error :: "string option"
  Account_SubscriptionId :: string

text \<open>
  Modelled from the spec: the methods of \<open>sdk.ResourceMetaData\<close> (package \<open>internal/sdk\<close> of
  this repository) are not among the source files. \<open>Decode\<close> reads the configured fields into
  the model, \<open>Encode\<close> writes the model into the resource data, \<open>SetID\<close> stores the
  serialized identifier, \<open>MarkAsGone\<close> is the resource-gone condition (it removes the
  resource from the state by clearing its ID, and returns no error), and
  \<open>ResourceRequiresImport\<close> is the import-required condition (an error naming the resource
  type and the ID).
\<close>

definition Decode :: "ResourceMetaData \<Rightarrow> go_error + ContainerAppEnvironmentModel" where
  "Decode metadata =
     (case decode_error metadata of
        Some e \<Rightarrow> Inl (LocalError e)
      | None \<Rightarrow> Inr (ResourceData_values metadata))"

definition Encode :: "ResourceMetaData \<Rightarrow> ContainerAppEnvironmentModel \<Rightarrow> go_error + ResourceMetaData" where
  "Encode metadata state =
     (case encode_error metadata of
        Some e \<Rightarrow> Inl (LocalError e)
      | None \<Rightarrow> Inr (metadata\<lparr>ResourceData_values := state\<rparr>))"

definition SetID :: "Helpers \<Rightarrow> ResourceMetaData \<Rightarrow> ManagedEnvironmentId \<Rightarrow> ResourceMetaData" where
  "SetID hp metadata ident = metadata\<lparr>ResourceData_Id := ManagedEnvironmentId_ID hp ident\<rparr>"

definition MarkAsGone :: "ResourceMetaData \<Rightarrow> ManagedEnvironmentId \<Rightarrow> outcome \<times> ResourceMetaData" where
  "MarkAsGone metadata ident = (Returned None, metadata\<lparr>ResourceData_Id := []\<rparr>)"

definition ResourceRequiresImport :: "string \<Rightarrow> ManagedEnvironmentId \<Rightarrow> go_error" where
  "ResourceRequiresImport resourceName ident = ImportAsExistsError resourceName ident"

definition ResourceType :: string where
  "ResourceType = ''azurerm_container_app_environment''"

section \<open>Container App Environment: the four operations\<close>

text \<open>
  \<open>Create\<close>: decode, existence check, Log Analytics lookups, assembly of the request, remote
  create. Every early return of the source is a branch here, in the source's order.
\<close>

definition ContainerAppEnvironmentResource_Create ::
  "Helpers \<Rightarrow> 'r Client \<Rightarrow> ResourceMetaData \<Rightarrow> 'r world \<Rightarrow> outcome \<times> ResourceMetaData \<times> 'r world" where
  "ContainerAppEnvironmentResource_Create hp cl metadata w =
     (case Decode metadata of
        Inl err \<Rightarrow> (Returned (Some err), metadata, w)
      | Inr containerAppEnvironment \<Rightarrow>
     let ident = NewManagedEnvironmentID (Account_SubscriptionId metadata)
                   (ResourceGroup containerAppEnvironment) (Name containerAppEnvironment) in
     (case client_Get cl ident w of ((existing, err), w1) \<Rightarrow>
     if err \<noteq> None \<and> \<not> WasNotFound (HttpResponse existing) then
       (Returned (Some (Errorf ''checking for presence of existing %s: %+v''
          [AManagedEnvironmentId ident, AErrRemote err])), metadata, w1)
     else if \<not> WasNotFound (HttpResponse existing) then
       (Returned (Some (ResourceRequiresImport ResourceType ident)), metadata, w1)
     else
     (case loganalyticsParse_LogAnalyticsWorkspaceID hp (LogAnalyticsWorkspaceId containerAppEnvironment) of
        Inl e \<Rightarrow> (Returned (Some (LocalError e)), metadata, w1)
      | Inr logAnalyticsId \<Rightarrow>
     (case logAnalyticsClient_Get cl (la_ResourceGroup logAnalyticsId) (la_WorkspaceName logAnalyticsId) w1 of
        ((workspace, err), w2) \<Rightarrow>
     (case (err, ws_WorkspaceProperties workspace) of
        (Some e, _) \<Rightarrow>
          (Returned (Some (Errorf ''retrieving %s for %s: %+v''
             [ALogAnalyticsWorkspaceId logAnalyticsId, AManagedEnvironmentId ident, AErrRemote err])),
           metadata, w2)
      | (None, None) \<Rightarrow>
          (Returned (Some (Errorf ''retrieving %s for %s: %+v''
             [ALogAnalyticsWorkspaceId logAnalyticsId, AManagedEnvironmentId ident, AErrRemote err])),
           metadata, w2)
      | (None, Some workspaceProperties) \<Rightarrow>
     (case CustomerID workspaceProperties of
        None \<Rightarrow>
          (Returned (Some (Errorf ''reading customer ID from %s''
             [ALogAnalyticsWorkspaceId logAnalyticsId])), metadata, w2)
      | Some customerID \<Rightarrow>
     (case sharedKeyClient_GetSharedKeys cl (la_ResourceGroup logAnalyticsId) (la_WorkspaceName logAnalyticsId) w2 of
        ((keys, err), w3) \<Rightarrow>
     (case err of
        Some e \<Rightarrow>
          (Returned (Some (Errorf ''retrieving access keys to %s for %s: %+v''
             [ALogAnalyticsWorkspaceId logAnalyticsId, AManagedEnvironmentId ident, AErrRemote err])),
           metadata, w3)
      | None \<Rightarrow>
     (case PrimarySharedKey keys of
        None \<Rightarrow>
          (Returned (Some (Errorf ''reading shared key for %s in %s''
             [ALogAnalyticsWorkspaceId logAnalyticsId, AManagedEnvironmentId ident])), metadata, w3)
      | Some primarySharedKey \<Rightarrow>
     let vnetConfiguration =
           (if InfrastructureSubnetId containerAppEnvironment \<noteq> [] then
              empty_VnetConfiguration
                \<lparr>vnet_InfrastructureSubnetId := utils_String (InfrastructureSubnetId containerAppEnvironment),
                 vnet_Internal := utils_Bool (InternalLoadBalancerEnabled containerAppEnvironment)\<rparr>
            else empty_VnetConfiguration);
         managedEnvironment =
           \<lparr>me_Location = Location containerAppEnvironment,
            me_Name = utils_String (Name containerAppEnvironment),
            me_Properties = Some
              \<lparr>props_AppLogsConfiguration = Some
                 \<lparr>alc_Destination = utils_String ''log-analytics'',
                  alc_LogAnalyticsConfiguration = Some
                    \<lparr>lac_CustomerId = CustomerID workspaceProperties,
                     lac_SharedKey = PrimarySharedKey keys\<rparr>\<rparr>,
               props_DefaultDomain = None,
               props_StaticIP = None,
               props_VnetConfiguration = Some vnetConfiguration\<rparr>,
            me_SystemData = None,
            me_Tags = tags_Expand (Tags containerAppEnvironment)\<rparr> in
     (case client_CreateOrUpdateThenPoll cl ident managedEnvironment w3 of (err, w4) \<Rightarrow>
     (case err of
        Some e \<Rightarrow>
          (Returned (Some (Errorf ''creating %s: %+v''
             [AManagedEnvironmentId ident, AErrRemote err])), metadata, w4)
      | None \<Rightarrow> (Returned None, SetID hp metadata ident, w4))))))))))))"

text \<open>
  \<open>Read\<close>: fetch, then flatten the answer into a zero-valued model under the source's nil
  guards, take \<open>log_analytics_workspace_id\<close> from the resource data, encode.
\<close>

definition ContainerAppEnvironmentResource_Read ::
  "Helpers \<Rightarrow> 'r Client \<Rightarrow> ResourceMetaData \<Rightarrow> 'r world \<Rightarrow> outcome \<times> ResourceMetaData \<times> 'r world" where
  "ContainerAppEnvironmentResource_Read hp cl metadata w =
     (case ParseManagedEnvironmentID hp (ResourceData_Id metadata) of
        Inl e \<Rightarrow> (Returned (Some (LocalError e)), metadata, w)
      | Inr ident \<Rightarrow>
     (case client_Get cl ident w of ((existing, err), w1) \<Rightarrow>
     (case err of
        Some e \<Rightarrow>
          if WasNotFound (HttpResponse existing) then
            (case MarkAsGone metadata ident of (res, metadata1) \<Rightarrow> (res, metadata1, w1))
          else
            (Returned (Some (Errorf ''reading %s: %+v''
               [AManagedEnvironmentId ident, AErrRemote err])), metadata, w1)
      | None \<Rightarrow>
     let state = zero_ContainerAppEnvironmentModel;
         state =
           (case Model existing of
              None \<Rightarrow> state
            | Some model \<Rightarrow>
                let state = state
                      \<lparr>Name := EnvironmentName ident,
                       ResourceGroup := ResourceGroupName ident,
                       Location := location_Normalize hp (me_Location model),
                       Tags := tags_Flatten (me_Tags model)\<rparr>;
                    state =
                      (case me_Properties model of
                         None \<Rightarrow> state
                       | Some props \<Rightarrow>
                           let state =
                                 (case props_VnetConfiguration props of
                                    None \<Rightarrow> state
                                  | Some vnet \<Rightarrow> state
                                      \<lparr>InfrastructureSubnetId := NormalizeNilableString (vnet_InfrastructureSubnetId vnet),
                                       InternalLoadBalancerEnabled := NormaliseNilableBool (vnet_Internal vnet),
                                       DockerBridgeCidr := NormalizeNilableString (vnet_DockerBridgeCidr vnet),
                                       PlatformReservedCidr := NormalizeNilableString (vnet_PlatformReservedCidr vnet),
                                       PlatformReservedDnsIP := NormalizeNilableString (vnet_PlatformReservedDnsIP vnet)\<rparr>)
                           in state
                                \<lparr>StaticIP := NormalizeNilableString (props_StaticIP props),
                                 DefaultDomain := NormalizeNilableString (props_DefaultDomain props)\<rparr>);
                    state =
                      (case me_SystemData model of
                         None \<Rightarrow> state
                       | Some sysData \<Rightarrow> state
                           \<lparr>CreatedAt := sys_CreatedAt sysData,
                            CreatedBy := sys_CreatedBy sysData,
                            CreatedByType := sys_CreatedByType sysData,
                            LastModifiedAt := sys_LastModifiedAt sysData,
                            LastModifiedBy := sys_LastModifiedBy sysData,
                            LastModifiedByType := sys_LastModifiedbyType sysData\<rparr>)
                in state);
         v = LogAnalyticsWorkspaceId (ResourceData_values metadata);
         state = (if v \<noteq> [] then state\<lparr>LogAnalyticsWorkspaceId := v\<rparr> else state)
     in
     (case Encode metadata state of
        Inl err \<Rightarrow> (Returned (Some (Errorf ''encoding: %+v'' [AErr (Some err)])), metadata, w1)
      | Inr metadata1 \<Rightarrow> (Returned None, metadata1, w1)))))"

text \<open>\<open>Delete\<close>: parse the ID, remote delete.\<close>

definition ContainerAppEnvironmentResource_Delete ::
  "Helpers \<Rightarrow> 'r Client \<Rightarrow> ResourceMetaData \<Rightarrow> 'r world \<Rightarrow> outcome \<times> ResourceMetaData \<times> 'r world" where
  "ContainerAppEnvironmentResource_Delete hp cl metadata w =
     (case ParseManagedEnvironmentID hp (ResourceData_Id metadata) of
        Inl e \<Rightarrow> (Returned (Some (LocalError e)), metadata, w)
      | Inr ident \<Rightarrow>
     (case client_DeleteThenPoll cl ident w of (err, w1) \<Rightarrow>
     (case err of
        Some e \<Rightarrow>
          (Returned (Some (Errorf ''deleting %s: %+v''
             [AManagedEnvironmentId ident, AErrRemote err])), metadata, w1)
      | None \<Rightarrow> (Returned None, metadata, w1))))"

text \<open>
  \<open>Update\<close>: fetch the remote model, replace its tags when the \<open>tags\<close> key has a change,
  submit it. \<open>existing.Model\<close> is dereferenced without a guard: a nil model is a panic, at
  the assignment of the tags or at \<open>*existing.Model\<close>.
\<close>

definition ContainerAppEnvironmentResource_Update ::
  "Helpers \<Rightarrow> 'r Client \<Rightarrow> ResourceMetaData \<Rightarrow> 'r world \<Rightarrow> outcome \<times> ResourceMetaData \<times> 'r world" where
  "ContainerAppEnvironmentResource_Update hp cl metadata w =
     (case ParseManagedEnvironmentID hp (ResourceData_Id metadata) of
        Inl e \<Rightarrow> (Returned (Some (LocalError e)), metadata, w)
      | Inr ident \<Rightarrow>
     (case Decode metadata of
        Inl err \<Rightarrow> (Returned (Some (Errorf ''decoding: %+v'' [AErr (Some err)])), metadata, w)
      | Inr state \<Rightarrow>
     (case client_Get cl ident w of ((existing, err), w1) \<Rightarrow>
     (case err of
        Some e \<Rightarrow>
          (Returned (Some (Errorf ''reading %s: %+v''
             [AManagedEnvironmentId ident, AErrRemote err])), metadata, w1)
      | None \<Rightarrow>
     (case Model existing of
        None \<Rightarrow> (Panic, metadata, w1)
      | Some model \<Rightarrow>
     let model = (if ResourceData_HasChange metadata ''tags''
                  then model\<lparr>me_Tags := tags_Expand (Tags state)\<rparr> else model) in
     (case client_CreateOrUpdateThenPoll cl ident model w1 of (err, w2) \<Rightarrow>
     (case err of
        Some e \<Rightarrow>
          (Returned (Some (Errorf ''updating %s: %+v''
             [AManagedEnvironmentId ident, AErrRemote err])), metadata, w2)
      | None \<Rightarrow> (Returned None, metadata, w2))))))))"

text \<open>The timeouts of the four \<open>sdk.ResourceFunc\<close> values, as \<open>time.Duration\<close> (nanoseconds).\<close>

definition time_Minute :: int where
  "time_Minute = 60 * 1000000000"

definition ContainerAppEnvironmentResource_Create_Timeout :: int where
  "ContainerAppEnvironmentResource_Create_Timeout = 30 * time_Minute"

definition ContainerAppEnvironmentResource_Read_Timeout :: int where
  "ContainerAppEnvironmentResource_Read_Timeout = 5 * time_Minute"

definition ContainerAppEnvironmentResource_Delete_Timeout :: int where
  "ContainerAppEnvironmentResource_Delete_Timeout = 30 * time_Minute"

definition ContainerAppEnvironmentResource_Update_Timeout :: int where
  "ContainerAppEnvironmentResource_Update_Timeout = 30 * time_Minute"

section \<open>Synapse Workspace AAD Admin: resource data and operations\<close>

text \<open>
  \<open>pluginsdk.ResourceData\<close> as the three functions use it: the ID and the string fields.
  \<open>d.Get(key).(string)\<close> reads a field, \<open>d.Set(key, value)\<close> with a \<open>*string\<close> writes
  the string pointed to, and the empty string for nil; the source ignores what \<open>Set\<close>
  returns.
\<close>

record ResourceData =
  d_Id :: string
  d_fields :: "string \<Rightarrow> string"

definition d_Get :: "ResourceData \<Rightarrow> string \<Rightarrow> string" where
  "d_Get d key = d_fields d key"

definition d_Set :: "ResourceData \<Rightarrow> string \<Rightarrow> string option \<Rightarrow> ResourceData" where
  "d_Set d key v = d\<lparr>d_fields := (d_fields d)(key := NormalizeNilableString v)\<rparr>"

definition d_SetId :: "ResourceData \<Rightarrow> string \<Rightarrow> ResourceData" where
  "d_SetId d v = d\<lparr>d_Id := v\<rparr>"

text \<open>
  \<open>Read\<close>. A Get error is returned unless the response is "not found"; in every other case
  the function goes on to set the four fields. \<open>aadAdmin.AadAdminProperties\<close> is
  dereferenced without a guard at the second \<open>d.Set\<close>, after the first one has run.
\<close>

definition resourceSynapseWorkspaceAADAdminRead ::
  "Helpers \<Rightarrow> 'r Client \<Rightarrow> ResourceData \<Rightarrow> 'r world \<Rightarrow> outcome \<times> ResourceData \<times> 'r world" where
  "resourceSynapseWorkspaceAADAdminRead hp cl d w =
     (case parse_WorkspaceAADAdminID hp (d_Id d) of
        Inl e \<Rightarrow> (Returned (Some (LocalError e)), d, w)
      | Inr ident \<Rightarrow>
     (case aadClient_Get cl (aid_ResourceGroup ident) (aid_WorkspaceName ident) w of
        ((aadAdmin, err), w1) \<Rightarrow>
     if err \<noteq> None \<and> \<not> WasNotFound (Response aadAdmin) then
       (Returned (Some (Errorf ''retrieving Synapse Workspace %q AAD Admin (Resource Group %q): %+v''
          [AString (aid_WorkspaceName ident), AString (aid_ResourceGroup ident), AErrRemote err])),
        d, w1)
     else
     let workspaceID = NewWorkspaceID (aid_SubscriptionId ident) (aid_ResourceGroup ident)
                         (aid_WorkspaceName ident);
         d1 = d_Set d ''synapse_workspace_id'' (Some (WorkspaceId_ID hp workspaceID)) in
     (case info_AadAdminProperties aadAdmin of
        None \<Rightarrow> (Panic, d1, w1)
      | Some aadAdminProperties \<Rightarrow>
     let d2 = d_Set d1 ''login'' (Login aadAdminProperties);
         d3 = d_Set d2 ''object_id'' (Sid aadAdminProperties);
         d4 = d_Set d3 ''tenant_id'' (TenantID aadAdminProperties) in
     (Returned None, d4, w1))))"

text \<open>
  \<open>CreateUpdate\<close>, registered for both Create and Update: it assembles the admin properties,
  calls the remote create-or-update, waits for the long-running operation, stores the ID and
  ends in \<open>Read\<close>.
\<close>

definition resourceSynapseWorkspaceAADAdminCreateUpdate ::
  "Helpers \<Rightarrow> 'r Client \<Rightarrow> ResourceData \<Rightarrow> 'r world \<Rightarrow> outcome \<times> ResourceData \<times> 'r world" where
  "resourceSynapseWorkspaceAADAdminCreateUpdate hp cl d w =
     (case parse_WorkspaceID hp (d_Get d ''synapse_workspace_id'') of
        Inl e \<Rightarrow> (Returned (Some (LocalError e)), d, w)
      | Inr workspaceId \<Rightarrow>
     let workspaceName = wid_Name workspaceId;
         workspaceResourceGroup = wid_ResourceGroup workspaceId;
         aadAdmin =
           \<lparr>Response = None,
            info_AadAdminProperties = Some
              \<lparr>TenantID = utils_String (d_Get d ''tenant_id''),
               Login = utils_String (d_Get d ''login''),
               AdministratorType = utils_String ''ActiveDirectory'',
               Sid = utils_String (d_Get d ''object_id'')\<rparr>\<rparr> in
     (case aadClient_CreateOrUpdate cl workspaceResourceGroup workspaceName aadAdmin w of
        ((workspaceAadAdminsCreateOrUpdateFuture, err), w1) \<Rightarrow>
     (case err of
        Some e \<Rightarrow>
          (Returned (Some (Errorf ''updating Synapse Workspace %q AAD Admin (Resource Group %q): %+v''
             [AString workspaceName, AString workspaceResourceGroup, AErrRemote err])), d, w1)
      | None \<Rightarrow>
     (case future_WaitForCompletionRef cl workspaceAadAdminsCreateOrUpdateFuture w1 of
        (err, w2) \<Rightarrow>
     (case err of
        Some e \<Rightarrow>
          (Returned (Some (Errorf ''waiting on updating for Synapse Workspace %q AAD Admin (Resource Group %q): %+v''
             [AString workspaceName, AString workspaceResourceGroup, AErrRemote err])), d, w2)
      | None \<Rightarrow>
     let ident = NewWorkspaceAADAdminID (wid_SubscriptionId workspaceId)
                   (wid_ResourceGroup workspaceId) (wid_Name workspaceId) ''activeDirectory'';
         d1 = d_SetId d (WorkspaceAADAdminId_ID hp ident) in
     resourceSynapseWorkspaceAADAdminRead hp cl d1 w2)))))"

text \<open>\<open>Delete\<close>: parse the ID, remote delete, wait.\<close>

definition resourceSynapseWorkspaceAADAdminDelete ::
  "Helpers \<Rightarrow> 'r Client \<Rightarrow> ResourceData \<Rightarrow> 'r world \<Rightarrow> outcome \<times> ResourceData \<times> 'r world" where
  "resourceSynapseWorkspaceAADAdminDelete hp cl d w =
     (case parse_WorkspaceAADAdminID hp (d_Id d) of
        Inl e \<Rightarrow> (Returned (Some (LocalError e)), d, w)
      | Inr ident \<Rightarrow>
     (case aadClient_Delete cl (aid_ResourceGroup ident) (aid_WorkspaceName ident) w of
        ((fut, err), w1) \<Rightarrow>
     (case err of
        Some e \<Rightarrow>
          (Returned (Some (Errorf ''setting empty Synapse Workspace %q AAD Admin (Resource Group %q): %+v''
             [AString (aid_WorkspaceName ident), AString (aid_ResourceGroup ident), AErrRemote err])),
           d, w1)
      | None \<Rightarrow>
     (case future_WaitForCompletionRef cl fut w1 of (err, w2) \<Rightarrow>
     (case err of
        Some e \<Rightarrow>
          (Returned (Some (Errorf ''waiting on setting empty Synapse Workspace %q AAD Admin (Resource Group %q): %+v''
             [AString (aid_WorkspaceName ident), AString (aid_ResourceGroup ident), AErrRemote err])),
           d, w2)
      | None \<Rightarrow> (Returned None, d, w2))))))"

text \<open>
  Modelled from the spec: \<open>pluginsdk.DefaultTimeout\<close> (package \<open>internal/tf/pluginsdk\<close>
  of this repository) is not among the source files; it makes the duration it is given the
  timeout of the operation, as a pointer to it. Below it, the \<open>Timeouts\<close> of
  \<open>resourceSynapseWorkspaceAADAdmin\<close>.
\<close>

record ResourceTimeout =
  Create :: "int option"
  Read :: "int option"
  Update :: "int option"
  Delete :: "int option"

definition DefaultTimeout :: "int \<Rightarrow> int option" where
  "DefaultTimeout tm = Some tm"

definition resourceSynapseWorkspaceAADAdmin_Timeouts :: ResourceTimeout where
  "resourceSynapseWorkspaceAADAdmin_Timeouts =
     \<lparr>Create = DefaultTimeout (30 * time_Minute),
      Read = DefaultTimeout (5 * time_Minute),
      Update = DefaultTimeout (30 * time_Minute),
      Delete = DefaultTimeout (30 * time_Minute)\<rparr>"

section \<open>The operations as the resources register them\<close>

datatype crud = OpCreate | OpRead | OpUpdate | OpDelete

text \<open>
  \<open>ContainerAppEnvironmentResource\<close> implements \<open>sdk.ResourceWithUpdate\<close> with its four
  methods; \<open>resourceSynapseWorkspaceAADAdmin\<close> registers \<open>CreateUpdate\<close> for both Create
  and Update.
\<close>

definition ContainerAppEnvironmentResource ::
  "crud \<Rightarrow> Helpers \<Rightarrow> 'r Client \<Rightarrow> ResourceMetaData \<Rightarrow> 'r world \<Rightarrow> outcome \<times> ResourceMetaData \<times> 'r world" where
  "ContainerAppEnvironmentResource op =
     (case op of
        OpCreate \<Rightarrow> ContainerAppEnvironmentResource_Create
      | OpRead \<Rightarrow> ContainerAppEnvironmentResource_Read
      | OpUpdate \<Rightarrow> ContainerAppEnvironmentResource_Update
      | OpDelete \<Rightarrow> ContainerAppEnvironmentResource_Delete)"

definition resourceSynapseWorkspaceAADAdmin ::
  "crud \<Rightarrow> Helpers \<Rightarrow> 'r Client \<Rightarrow> ResourceData \<Rightarrow> 'r world \<Rightarrow> outcome \<times> ResourceData \<times> 'r world" where
  "resourceSynapseWorkspaceAADAdmin op =
     (case op of
        OpCreate \<Rightarrow> resourceSynapseWorkspaceAADAdminCreateUpdate
      | OpRead \<Rightarrow> resourceSynapseWorkspaceAADAdminRead
      | OpUpdate \<Rightarrow> resourceSynapseWorkspaceAADAdminCreateUpdate
      | OpDelete \<Rightarrow> resourceSynapseWorkspaceAADAdminDelete)"

section \<open>Notions the properties are stated with\<close>

text \<open>The remote calls an operation made: what the log gained between two worlds.\<close>

definition new_calls :: "'r world \<Rightarrow> 'r world \<Rightarrow> (remote_call \<times> remote_error option) list" where
  "new_calls w w' = drop (length (calls w)) (calls w')"

section \<open>A remote service that returns what was stored\<close>

text \<open>
  A concrete remote state and client, used to run the operations on examples: managed
  environments and AAD admins are kept by key, a Get answers 404 with an error for a missing
  key and 200 with the stored value otherwise, and the Log Analytics calls always answer.
\<close>

record store =
  environments :: "ManagedEnvironmentId \<rightharpoonup> ManagedEnvironment"
  admins :: "string \<times> string \<rightharpoonup> AadAdminProperties option"

definition store_Client :: "store Client" where
  "store_Client =
     \<lparr>ManagedEnvironmentClient_Get = (\<lambda>ident r.
        (case environments r ident of
           None \<Rightarrow> ((\<lparr>HttpResponse = Some 404, Model = None\<rparr>, Some ''ResourceNotFound''), r)
         | Some m \<Rightarrow> ((\<lparr>HttpResponse = Some 200, Model = Some m\<rparr>, None), r))),
      ManagedEnvironmentClient_CreateOrUpdateThenPoll = (\<lambda>ident input r.
        (None, r\<lparr>environments := (environments r)(ident \<mapsto> input)\<rparr>)),
      ManagedEnvironmentClient_DeleteThenPoll = (\<lambda>ident r.
        (None, r\<lparr>environments := (environments r)(ident := None)\<rparr>)),
      WorkspacesClient_Get = (\<lambda>resourceGroup workspaceName r.
        ((\<lparr>ws_WorkspaceProperties = Some \<lparr>CustomerID = Some ''customer-1''\<rparr>\<rparr>, None), r)),
      SharedKeysClient_GetSharedKeys = (\<lambda>resourceGroup workspaceName r.
        ((\<lparr>PrimarySharedKey = Some ''key-1''\<rparr>, None), r)),
      WorkspaceAadAdminsClient_Get = (\<lambda>resourceGroup workspaceName r.
        (case admins r (resourceGroup, workspaceName) of
           None \<Rightarrow> ((\<lparr>Response = Some 404, info_AadAdminProperties = None\<rparr>, Some ''ResourceNotFound''), r)
         | Some p \<Rightarrow> ((\<lparr>Response = Some 200, info_AadAdminProperties = p\<rparr>, None), r))),
      WorkspaceAadAdminsClient_CreateOrUpdate = (\<lambda>resourceGroup workspaceName aadAdmin r.
        ((0, None), r\<lparr>admins := (admins r)((resourceGroup, workspaceName) \<mapsto> info_AadAdminProperties aadAdmin)\<rparr>)),
      WorkspaceAadAdminsClient_Delete = (\<lambda>resourceGroup workspaceName r.
        ((0, None), r\<lparr>admins := (admins r)((resourceGroup, workspaceName) := None)\<rparr>)),
      WaitForCompletionRef = (\<lambda>fut r. (None, r))\<rparr>"

text \<open>The same service when every call fails with a server error.\<close>

definition failing_Client :: "store Client" where
  "failing_Client =
     \<lparr>ManagedEnvironmentClient_Get = (\<lambda>ident r.
        ((\<lparr>HttpResponse = Some 500, Model = None\<rparr>, Some ''InternalServerError''), r)),
      ManagedEnvironmentClient_CreateOrUpdateThenPoll = (\<lambda>ident input r. (Some ''InternalServerError'', r)),
      ManagedEnvironmentClient_DeleteThenPoll = (\<lambda>ident r. (Some ''InternalServerError'', r)),
      WorkspacesClient_Get = (\<lambda>resourceGroup workspaceName r.
        ((\<lparr>ws_WorkspaceProperties = None\<rparr>, Some ''InternalServerError''), r)),
      SharedKeysClient_GetSharedKeys = (\<lambda>resourceGroup workspaceName r.
        ((\<lparr>PrimarySharedKey = None\<rparr>, Some ''InternalServerError''), r)),
      WorkspaceAadAdminsClient_Get = (\<lambda>resourceGroup workspaceName r.
        ((\<lparr>Response = Some 500, info_AadAdminProperties = None\<rparr>, Some ''InternalServerError''), r)),
      WorkspaceAadAdminsClient_CreateOrUpdate = (\<lambda>resourceGroup workspaceName aadAdmin r.
        ((0, Some ''InternalServerError''), r)),
      WorkspaceAadAdminsClient_Delete = (\<lambda>resourceGroup workspaceName r.
        ((0, Some ''InternalServerError''), r)),
      WaitForCompletionRef = (\<lambda>fut r. (Some ''InternalServerError'', r))\<rparr>"

definition empty_world :: "store world" where
  "empty_world = \<lparr>remote = \<lparr>environments = Map.empty, admins = Map.empty\<rparr>, calls = []\<rparr>"

text \<open>The IDs of the examples, their serialized forms, and helpers that know exactly these.\<close>

definition example_environment_id :: ManagedEnvironmentId where
  "example_environment_id = NewManagedEnvironmentID ''sub1'' ''rg1'' ''env1''"

definition example_workspace_id :: WorkspaceId where
  "example_workspace_id = NewWorkspaceID ''sub1'' ''rg1'' ''ws1''"

definition example_admin_id :: WorkspaceAADAdminId where
  "example_admin_id = NewWorkspaceAADAdminID ''sub1'' ''rg1'' ''ws1'' ''activeDirectory''"

definition example_Helpers :: Helpers where
  "example_Helpers =
     \<lparr>ParseManagedEnvironmentID = (\<lambda>s.
        if s = ''/subscriptions/sub1/resourceGroups/rg1/providers/Microsoft.App/managedEnvironments/env1''
        then Inr example_environment_id else Inl ''parsing the ID failed''),
      ManagedEnvironmentId_ID = (\<lambda>ident.
        ''/subscriptions/'' @ SubscriptionId ident @ ''/resourceGroups/'' @ ResourceGroupName ident @
        ''/providers/Microsoft.App/managedEnvironments/'' @ EnvironmentName ident),
      location_Normalize = filter (\<lambda>c. c \<noteq> CHR '' ''),
      loganalyticsParse_LogAnalyticsWorkspaceID = (\<lambda>s.
        if s = ''/subscriptions/sub1/resourceGroups/rg1/providers/Microsoft.OperationalInsights/workspaces/law1''
        then Inr \<lparr>la_SubscriptionId = ''sub1'', la_ResourceGroup = ''rg1'', la_WorkspaceName = ''law1''\<rparr>
        else Inl ''parsing the ID failed''),
      parse_WorkspaceID = (\<lambda>s.
        if s = ''/subscriptions/sub1/resourceGroups/rg1/providers/Microsoft.Synapse/workspaces/ws1''
        then Inr example_workspace_id else Inl ''parsing the ID failed''),
      WorkspaceId_ID = (\<lambda>ident.
        ''/subscriptions/'' @ wid_SubscriptionId ident @ ''/resourceGroups/'' @ wid_ResourceGroup ident @
        ''/providers/Microsoft.Synapse/workspaces/'' @ wid_Name ident),
      parse_WorkspaceAADAdminID = (\<lambda>s.
        if s = ''/subscriptions/sub1/resourceGroups/rg1/providers/Microsoft.Synapse/workspaces/ws1/administrators/activeDirectory''
        then Inr example_admin_id else Inl ''parsing the ID failed''),
      WorkspaceAADAdminId_ID = (\<lambda>ident.
        ''/subscriptions/'' @ aid_SubscriptionId ident @ ''/resourceGroups/'' @ aid_ResourceGroup ident @
        ''/providers/Microsoft.Synapse/workspaces/'' @ aid_WorkspaceName ident @
        ''/administrators/'' @ aid_AdministratorName ident)\<rparr>"

text \<open>
  A configuration of a Container App Environment with a subnet and the internal load
  balancer, and the same one without a subnet.
\<close>

definition example_config :: ContainerAppEnvironmentModel where
  "example_config = zero_ContainerAppEnvironmentModel
     \<lparr>Name := ''env1'', ResourceGroup := ''rg1'', Location := ''west europe'',
      LogAnalyticsWorkspaceId :=
        ''/subscriptions/sub1/resourceGroups/rg1/providers/Microsoft.OperationalInsights/workspaces/law1'',
      InfrastructureSubnetId := ''subnet1'',
      InternalLoadBalancerEnabled := True,
      Tags := [''env'' \<mapsto> ''test'']\<rparr>"

definition example_config_no_subnet :: ContainerAppEnvironmentModel where
  "example_config_no_subnet = example_config\<lparr>InfrastructureSubnetId := []\<rparr>"

definition example_metadata :: "ContainerAppEnvironmentModel \<Rightarrow> ResourceMetaData" where
  "example_metadata config =
     \<lparr>ResourceData_Id = [], ResourceData_values = config, ResourceData_HasChange = (\<lambda>key. False),
      decode_error = None, encode_error = None, Account_SubscriptionId = ''sub1''\<rparr>"

text \<open>The stored resource data of that environment, as \<open>Read\<close>, \<open>Update\<close> and \<open>Delete\<close> find it.\<close>

definition example_metadata_stored :: ResourceMetaData where
  "example_metadata_stored = (example_metadata example_config)
     \<lparr>ResourceData_Id :=
        ''/subscriptions/sub1/resourceGroups/rg1/providers/Microsoft.App/managedEnvironments/env1''\<rparr>"

text \<open>The resource data of a Synapse AAD admin: before its creation, and once stored.\<close>

definition example_d :: ResourceData where
  "example_d =
     \<lparr>d_Id = [],
      d_fields = (\<lambda>key. [])
        (''synapse_workspace_id'' :=
           ''/subscriptions/sub1/resourceGroups/rg1/providers/Microsoft.Synapse/workspaces/ws1'',
         ''login'' := ''admin'',
         ''object_id'' := ''00000000-0000-0000-0000-000000000001'',
         ''tenant_id'' := ''00000000-0000-0000-0000-000000000002'')\<rparr>"

definition example_d_stored :: ResourceData where
  "example_d_stored = example_d
     \<lparr>d_Id := ''/subscriptions/sub1/resourceGroups/rg1/providers/Microsoft.Synapse/workspaces/ws1/administrators/activeDirectory''\<rparr>"

text \<open>A world in which the AAD admin of workspace \<open>ws1\<close> already exists.\<close>

definition world_with_admin :: "store world" where
  "world_with_admin =
     \<lparr>remote = \<lparr>environments = Map.empty,
                admins = [(''rg1'', ''ws1'') \<mapsto> Some
                  \<lparr>TenantID = Some ''00000000-0000-0000-0000-000000000009'',
                   Login = Some ''previous'',
                   AdministratorType = Some ''ActiveDirectory'',
                   Sid = Some ''00000000-0000-0000-0000-000000000008''\<rparr>]\<rparr>,
      calls = []\<rparr>"

text \<open>A world in which the service answers 200 for that admin with no properties object.\<close>

definition world_with_bare_admin :: "store world" where
  "world_with_bare_admin =
     \<lparr>remote = \<lparr>environments = Map.empty, admins = [(''rg1'', ''ws1'') \<mapsto> None]\<rparr>, calls = []\<rparr>"

text \<open>
  The request \<open>Create\<close> assembles for \<open>example_config\<close> against this service, the one for
  \<open>example_config_no_subnet\<close>, and a world in which the environment already exists.
\<close>

definition example_request :: ManagedEnvironment where
  "example_request =
     \<lparr>me_Location = ''west europe'',
      me_Name = Some ''env1'',
      me_Properties = Some
        \<lparr>props_AppLogsConfiguration = Some
           \<lparr>alc_Destination = Some ''log-analytics'',
            alc_LogAnalyticsConfiguration = Some
              \<lparr>lac_CustomerId = Some ''customer-1'', lac_SharedKey = Some ''key-1''\<rparr>\<rparr>,
         props_DefaultDomain = None,
         props_StaticIP = None,
         props_VnetConfiguration = Some
           \<lparr>vnet_DockerBridgeCidr = None, vnet_InfrastructureSubnetId = Some ''subnet1'',
            vnet_Internal = Some True, vnet_PlatformReservedCidr = None,
            vnet_PlatformReservedDnsIP = None\<rparr>\<rparr>,
      me_SystemData = None,
      me_Tags = Some [''env'' \<mapsto> ''test'']\<rparr>"

definition example_request_no_subnet :: ManagedEnvironment where
  "example_request_no_subnet = example_request
     \<lparr>me_Properties := Some
        \<lparr>props_AppLogsConfiguration = Some
           \<lparr>alc_Destination = Some ''log-analytics'',
            alc_LogAnalyticsConfiguration = Some
              \<lparr>lac_CustomerId = Some ''customer-1'', lac_SharedKey = Some ''key-1''\<rparr>\<rparr>,
         props_DefaultDomain = None,
         props_StaticIP = None,
         props_VnetConfiguration = Some empty_VnetConfiguration\<rparr>\<rparr>"

definition world_with_environment :: "store world" where
  "world_with_environment =
     \<lparr>remote = \<lparr>environments = [example_environment_id \<mapsto> example_request], admins = Map.empty\<rparr>,
      calls = []\<rparr>"

section \<open>Proof tools: unfolding the model, runs on the examples\<close>

lemmas client_defs = client_Get_def client_CreateOrUpdateThenPoll_def client_DeleteThenPoll_def
  logAnalyticsClient_Get_def sharedKeyClient_GetSharedKeys_def aadClient_Get_def
  aadClient_CreateOrUpdate_def aadClient_Delete_def future_WaitForCompletionRef_def logged_def

lemmas helper_defs = utils_String_def utils_Bool_def NormalizeNilableString_def
  NormaliseNilableBool_def tags_Expand_def tags_Flatten_def WasNotFound_def AErrRemote_def
  Decode_def Encode_def SetID_def MarkAsGone_def ResourceRequiresImport_def
  NewManagedEnvironmentID_def NewWorkspaceID_def NewWorkspaceAADAdminID_def
  d_Get_def d_Set_def d_SetId_def

lemmas example_defs = store_Client_def failing_Client_def empty_world_def example_Helpers_def
  example_environment_id_def example_workspace_id_def example_admin_id_def
  example_config_def example_config_no_subnet_def example_metadata_def
  example_metadata_stored_def example_d_def example_d_stored_def world_with_admin_def
  world_with_bare_admin_def zero_ContainerAppEnvironmentModel_def empty_VnetConfiguration_def
  example_request_def example_request_no_subnet_def world_with_environment_def

text \<open>\<open>Create\<close> against the storing service, with and without a subnet.\<close>

lemma run_Create_example:
  "ContainerAppEnvironmentResource_Create example_Helpers store_Client (example_metadata example_config) empty_world =
     (Returned None,
      example_metadata_stored,
      \<lparr>remote = \<lparr>environments = [example_environment_id \<mapsto> example_request], admins = Map.empty\<rparr>,
       calls = [(ManagedEnvironments_Get example_environment_id, Some ''ResourceNotFound''),
                (Workspaces_Get ''rg1'' ''law1'', None),
                (SharedKeys_GetSharedKeys ''rg1'' ''law1'', None),
                (ManagedEnvironments_CreateOrUpdateThenPoll example_environment_id example_request, None)]\<rparr>)"
  by (simp add: ContainerAppEnvironmentResource_Create_def client_defs helper_defs example_defs Let_def)

lemma run_Create_example_no_subnet:
  "ContainerAppEnvironmentResource_Create example_Helpers store_Client (example_metadata example_config_no_subnet) empty_world =
     (Returned None,
      (example_metadata example_config_no_subnet)\<lparr>ResourceData_Id :=
        ''/subscriptions/sub1/resourceGroups/rg1/providers/Microsoft.App/managedEnvironments/env1''\<rparr>,
      \<lparr>remote = \<lparr>environments = [example_environment_id \<mapsto> example_request_no_subnet], admins = Map.empty\<rparr>,
       calls = [(ManagedEnvironments_Get example_environment_id, Some ''ResourceNotFound''),
                (Workspaces_Get ''rg1'' ''law1'', None),
                (SharedKeys_GetSharedKeys ''rg1'' ''law1'', None),
                (ManagedEnvironments_CreateOrUpdateThenPoll example_environment_id example_request_no_subnet, None)]\<rparr>)"
  by (simp add: ContainerAppEnvironmentResource_Create_def client_defs helper_defs example_defs Let_def)

text \<open>\<open>Read\<close> and \<open>Update\<close> of the stored environment.\<close>

lemma run_Read_example:
  "ContainerAppEnvironmentResource_Read example_Helpers store_Client example_metadata_stored world_with_environment =
     (Returned None,
      example_metadata_stored\<lparr>ResourceData_values := example_config\<lparr>Location := ''westeurope''\<rparr>\<rparr>,
      \<lparr>remote = \<lparr>environments = [example_environment_id \<mapsto> example_request], admins = Map.empty\<rparr>,
       calls = [(ManagedEnvironments_Get example_environment_id, None)]\<rparr>)"
  by (simp add: ContainerAppEnvironmentResource_Read_def client_defs helper_defs example_defs Let_def)

lemma run_Update_example:
  "ContainerAppEnvironmentResource_Update example_Helpers store_Client example_metadata_stored world_with_environment =
     (Returned None, example_metadata_stored,
      \<lparr>remote = \<lparr>environments = [example_environment_id \<mapsto> example_request], admins = Map.empty\<rparr>,
       calls = [(ManagedEnvironments_Get example_environment_id, None),
                (ManagedEnvironments_CreateOrUpdateThenPoll example_environment_id example_request, None)]\<rparr>)"
  by (simp add: ContainerAppEnvironmentResource_Update_def client_defs helper_defs example_defs Let_def)

lemma run_Update_example_tags:
  "ContainerAppEnvironmentResource_Update example_Helpers store_Client
     (example_metadata_stored
        \<lparr>ResourceData_values := example_config\<lparr>Tags := [''env'' \<mapsto> ''prod'']\<rparr>,
         ResourceData_HasChange := (\<lambda>key. key = ''tags'')\<rparr>)
     world_with_environment =
     (Returned None,
      example_metadata_stored
        \<lparr>ResourceData_values := example_config\<lparr>Tags := [''env'' \<mapsto> ''prod'']\<rparr>,
         ResourceData_HasChange := (\<lambda>key. key = ''tags'')\<rparr>,
      \<lparr>remote = \<lparr>environments = [example_environment_id \<mapsto> example_request\<lparr>me_Tags := Some [''env'' \<mapsto> ''prod'']\<rparr>],
                 admins = Map.empty\<rparr>,
       calls = [(ManagedEnvironments_Get example_environment_id, None),
                (ManagedEnvironments_CreateOrUpdateThenPoll example_environment_id
                   (example_request\<lparr>me_Tags := Some [''env'' \<mapsto> ''prod'']\<rparr>), None)]\<rparr>)"
  by (simp add: ContainerAppEnvironmentResource_Update_def client_defs helper_defs example_defs Let_def)

text \<open>\<open>Create\<close> when the environment already exists.\<close>

lemma run_Create_existing:
  "ContainerAppEnvironmentResource_Create example_Helpers store_Client (example_metadata example_config) world_with_environment =
     (Returned (Some (ImportAsExistsError ''azurerm_container_app_environment'' example_environment_id)),
      example_metadata example_config,
      \<lparr>remote = \<lparr>environments = [example_environment_id \<mapsto> example_request], admins = Map.empty\<rparr>,
       calls = [(ManagedEnvironments_Get example_environment_id, None)]\<rparr>)"
  by (simp add: ContainerAppEnvironmentResource_Create_def client_defs helper_defs example_defs
      ResourceType_def Let_def)



text \<open>\<open>Read\<close> in the world that \<open>Create\<close> left, and the Synapse create.\<close>

lemma run_Read_after_Create:
  "ContainerAppEnvironmentResource_Read example_Helpers store_Client example_metadata_stored
     \<lparr>remote = \<lparr>environments = [example_environment_id \<mapsto> example_request], admins = Map.empty\<rparr>,
      calls = [(ManagedEnvironments_Get example_environment_id, Some ''ResourceNotFound''),
               (Workspaces_Get ''rg1'' ''law1'', None),
               (SharedKeys_GetSharedKeys ''rg1'' ''law1'', None),
               (ManagedEnvironments_CreateOrUpdateThenPoll example_environment_id example_request, None)]\<rparr> =
     (Returned None,
      example_metadata_stored\<lparr>ResourceData_values := example_config\<lparr>Location := ''westeurope''\<rparr>\<rparr>,
      \<lparr>remote = \<lparr>environments = [example_environment_id \<mapsto> example_request], admins = Map.empty\<rparr>,
       calls = [(ManagedEnvironments_Get example_environment_id, Some ''ResourceNotFound''),
                (Workspaces_Get ''rg1'' ''law1'', None),
                (SharedKeys_GetSharedKeys ''rg1'' ''law1'', None),
                (ManagedEnvironments_CreateOrUpdateThenPoll example_environment_id example_request, None),
                (ManagedEnvironments_Get example_environment_id, None)]\<rparr>)"
  by (simp add: ContainerAppEnvironmentResource_Read_def client_defs helper_defs example_defs Let_def)

lemma run_Read_after_Create_no_subnet:
  "ContainerAppEnvironmentResource_Read example_Helpers store_Client
     ((example_metadata example_config_no_subnet)\<lparr>ResourceData_Id :=
        ''/subscriptions/sub1/resourceGroups/rg1/providers/Microsoft.App/managedEnvironments/env1''\<rparr>)
     \<lparr>remote = \<lparr>environments = [example_environment_id \<mapsto> example_request_no_subnet], admins = Map.empty\<rparr>,
      calls = [(ManagedEnvironments_Get example_environment_id, Some ''ResourceNotFound''),
               (Workspaces_Get ''rg1'' ''law1'', None),
               (SharedKeys_GetSharedKeys ''rg1'' ''law1'', None),
               (ManagedEnvironments_CreateOrUpdateThenPoll example_environment_id example_request_no_subnet, None)]\<rparr> =
     (Returned None,
      (example_metadata
         (example_config_no_subnet\<lparr>Location := ''westeurope'', InternalLoadBalancerEnabled := False\<rparr>))
        \<lparr>ResourceData_Id :=
           ''/subscriptions/sub1/resourceGroups/rg1/providers/Microsoft.App/managedEnvironments/env1''\<rparr>,
      \<lparr>remote = \<lparr>environments = [example_environment_id \<mapsto> example_request_no_subnet], admins = Map.empty\<rparr>,
       calls = [(ManagedEnvironments_Get example_environment_id, Some ''ResourceNotFound''),
                (Workspaces_Get ''rg1'' ''law1'', None),
                (SharedKeys_GetSharedKeys ''rg1'' ''law1'', None),
                (ManagedEnvironments_CreateOrUpdateThenPoll example_environment_id example_request_no_subnet, None),
                (ManagedEnvironments_Get example_environment_id, None)]\<rparr>)"
  by (simp add: ContainerAppEnvironmentResource_Read_def client_defs helper_defs example_defs Let_def)

lemma run_Synapse_CreateUpdate:
  "resourceSynapseWorkspaceAADAdminCreateUpdate example_Helpers store_Client example_d empty_world =
     (Returned None, example_d_stored,
      \<lparr>remote = \<lparr>environments = Map.empty,
                 admins = [(''rg1'', ''ws1'') \<mapsto> Some
                   \<lparr>TenantID = Some ''00000000-0000-0000-0000-000000000002'',
                    Login = Some ''admin'',
                    AdministratorType = Some ''ActiveDirectory'',
                    Sid = Some ''00000000-0000-0000-0000-000000000001''\<rparr>]\<rparr>,
       calls = [(WorkspaceAadAdmins_CreateOrUpdate ''rg1'' ''ws1''
                   \<lparr>Response = None, info_AadAdminProperties = Some
                     \<lparr>TenantID = Some ''00000000-0000-0000-0000-000000000002'',
                      Login = Some ''admin'',
                      AdministratorType = Some ''ActiveDirectory'',
                      Sid = Some ''00000000-0000-0000-0000-000000000001''\<rparr>\<rparr>, None),
                (Future_WaitForCompletionRef 0, None),
                (WorkspaceAadAdmins_Get ''rg1'' ''ws1'', None)]\<rparr>)"
  by (simp add: resourceSynapseWorkspaceAADAdminCreateUpdate_def resourceSynapseWorkspaceAADAdminRead_def
      client_defs helper_defs example_defs Let_def fun_eq_iff)

text \<open>The Synapse create when the admin already exists.\<close>

lemma run_Synapse_CreateUpdate_existing:
  "resourceSynapseWorkspaceAADAdminCreateUpdate example_Helpers store_Client example_d world_with_admin =
     (Returned None, example_d_stored,
      \<lparr>remote = \<lparr>environments = Map.empty,
                 admins = [(''rg1'', ''ws1'') \<mapsto> Some
                   \<lparr>TenantID = Some ''00000000-0000-0000-0000-000000000002'',
                    Login = Some ''admin'',
                    AdministratorType = Some ''ActiveDirectory'',
                    Sid = Some ''00000000-0000-0000-0000-000000000001''\<rparr>]\<rparr>,
       calls = [(WorkspaceAadAdmins_CreateOrUpdate ''rg1'' ''ws1''
                   \<lparr>Response = None, info_AadAdminProperties = Some
                     \<lparr>TenantID = Some ''00000000-0000-0000-0000-000000000002'',
                      Login = Some ''admin'',
                      AdministratorType = Some ''ActiveDirectory'',
                      Sid = Some ''00000000-0000-0000-0000-000000000001''\<rparr>\<rparr>, None),
                (Future_WaitForCompletionRef 0, None),
                (WorkspaceAadAdmins_Get ''rg1'' ''ws1'', None)]\<rparr>)"
  by (simp add: resourceSynapseWorkspaceAADAdminCreateUpdate_def resourceSynapseWorkspaceAADAdminRead_def
      client_defs helper_defs example_defs Let_def fun_eq_iff)






section \<open>Timeouts\<close>

text \<open>
  Claim C7. Every operation of both resources has a timeout between 5 and 30 minutes: Read
  has 5 minutes, and Create, Update and Delete have 30 minutes each.
\<close>

theorem timeouts_between_5_and_30_minutes:
  "ContainerAppEnvironmentResource_Read_Timeout = 5 * time_Minute \<and>
   ContainerAppEnvironmentResource_Create_Timeout = 30 * time_Minute \<and>
   ContainerAppEnvironmentResource_Update_Timeout = 30 * time_Minute \<and>
   ContainerAppEnvironmentResource_Delete_Timeout = 30 * time_Minute \<and>
   Read resourceSynapseWorkspaceAADAdmin_Timeouts = Some (5 * time_Minute) \<and>
   Create resourceSynapseWorkspaceAADAdmin_Timeouts = Some (30 * time_Minute) \<and>
   Update resourceSynapseWorkspaceAADAdmin_Timeouts = Some (30 * time_Minute) \<and>
   Delete resourceSynapseWorkspaceAADAdmin_Timeouts = Some (30 * time_Minute) \<and>
   5 * time_Minute = 300000000000 \<and> 30 * time_Minute = 1800000000000 \<and>
   5 * time_Minute \<le> 30 * time_Minute"
  by (simp add: ContainerAppEnvironmentResource_Read_Timeout_def
      ContainerAppEnvironmentResource_Create_Timeout_def
      ContainerAppEnvironmentResource_Update_Timeout_def
      ContainerAppEnvironmentResource_Delete_Timeout_def
      resourceSynapseWorkspaceAADAdmin_Timeouts_def DefaultTimeout_def time_Minute_def)

section \<open>The request that Create sends\<close>

text \<open>
  Three facts about \<open>Create\<close> of the Container App Environment: what any create request
  it logs carries, that a success has sent one, and that it reaches the remote create
  whenever every step before it succeeds.
\<close>

lemma Create_request_vnet:
  assumes "ContainerAppEnvironmentResource_Create hp cl metadata w = (out, metadata', w')"
    and "(ManagedEnvironments_CreateOrUpdateThenPoll ident env, e) \<in> set (new_calls w w')"
  shows "\<exists>props vnet.
     me_Properties env = Some props \<and> props_VnetConfiguration props = Some vnet \<and>
     vnet_InfrastructureSubnetId vnet =
       (if InfrastructureSubnetId (ResourceData_values metadata) = [] then None
        else Some (InfrastructureSubnetId (ResourceData_values metadata))) \<and>
     vnet_Internal vnet =
       (if InfrastructureSubnetId (ResourceData_values metadata) = [] then None
        else Some (InternalLoadBalancerEnabled (ResourceData_values metadata)))"
  using assms
  unfolding ContainerAppEnvironmentResource_Create_def client_defs new_calls_def Decode_def Let_def
    utils_String_def utils_Bool_def empty_VnetConfiguration_def
  by (auto split: sum.splits prod.splits option.splits if_splits)

lemma Create_success_sends:
  assumes "ContainerAppEnvironmentResource_Create hp cl metadata w = (Returned None, metadata', w')"
  shows "\<exists>env. last (new_calls w w') =
     (ManagedEnvironments_CreateOrUpdateThenPoll
        (NewManagedEnvironmentID (Account_SubscriptionId metadata)
           (ResourceGroup (ResourceData_values metadata)) (Name (ResourceData_values metadata))) env, None)"
  using assms
  unfolding ContainerAppEnvironmentResource_Create_def client_defs new_calls_def Decode_def Let_def
  by (auto split: sum.splits prod.splits option.splits if_splits)

lemma Create_reaches_request:
  assumes "ContainerAppEnvironmentResource_Create hp cl metadata w = (out, metadata', w')"
    and "decode_error metadata = None"
    and "ident = NewManagedEnvironmentID (Account_SubscriptionId metadata)
           (ResourceGroup (ResourceData_values metadata)) (Name (ResourceData_values metadata))"
    and "WasNotFound (HttpResponse (fst (fst (ManagedEnvironmentClient_Get cl ident (remote w)))))"
    and "loganalyticsParse_LogAnalyticsWorkspaceID hp (LogAnalyticsWorkspaceId (ResourceData_values metadata)) = Inr la"
    and "ws = WorkspacesClient_Get cl (la_ResourceGroup la) (la_WorkspaceName la)
                (snd (ManagedEnvironmentClient_Get cl ident (remote w)))"
    and "snd (fst ws) = None"
    and "ws_WorkspaceProperties (fst (fst ws)) = Some wp"
    and "CustomerID wp = Some customerID"
    and "ks = SharedKeysClient_GetSharedKeys cl (la_ResourceGroup la) (la_WorkspaceName la) (snd ws)"
    and "snd (fst ks) = None"
    and "PrimarySharedKey (fst (fst ks)) = Some key"
  shows "new_calls w w' \<noteq> [] \<and>
         (case last (new_calls w w') of
            (ManagedEnvironments_CreateOrUpdateThenPoll i env, e) \<Rightarrow>
              i = ident \<and>
              out = Returned (case e of None \<Rightarrow> None
                      | Some r \<Rightarrow> Some (Errorf ''creating %s: %+v''
                          [AManagedEnvironmentId ident, AErr (Some (RemoteError r))]))
          | _ \<Rightarrow> False)"
  using assms
  unfolding ContainerAppEnvironmentResource_Create_def client_defs new_calls_def Decode_def Let_def
    AErrRemote_def
  by (auto split: sum.splits prod.splits option.splits if_splits)

text \<open>
  Claim C10. \<open>Create\<close> of the Container App Environment sends a create request whenever
  the existence check answers "not found" and the Log Analytics lookups succeed, and it
  never returns success without having sent one. Every request it sends carries a
  VnetConfiguration; when \<open>InfrastructureSubnetId\<close> is empty that configuration has
  neither a subnet ID nor an internal flag, whatever \<open>InternalLoadBalancerEnabled\<close> is, and
  otherwise it has both: the internal load balancer setting is transmitted exactly when a
  subnet ID is supplied.
\<close>

theorem Create_vnet_configuration:
  assumes "ContainerAppEnvironmentResource_Create hp cl metadata w = (out, metadata', w')"
    and "ident = NewManagedEnvironmentID (Account_SubscriptionId metadata)
           (ResourceGroup (ResourceData_values metadata)) (Name (ResourceData_values metadata))"
  shows "(\<forall>i env e. (ManagedEnvironments_CreateOrUpdateThenPoll i env, e) \<in> set (new_calls w w') \<longrightarrow>
      (\<exists>props vnet.
         me_Properties env = Some props \<and> props_VnetConfiguration props = Some vnet \<and>
         vnet_InfrastructureSubnetId vnet =
           (if InfrastructureSubnetId (ResourceData_values metadata) = [] then None
            else Some (InfrastructureSubnetId (ResourceData_values metadata))) \<and>
         vnet_Internal vnet =
           (if InfrastructureSubnetId (ResourceData_values metadata) = [] then None
            else Some (InternalLoadBalancerEnabled (ResourceData_values metadata))))) \<and>
     (out = Returned None \<longrightarrow>
        (\<exists>env. last (new_calls w w') = (ManagedEnvironments_CreateOrUpdateThenPoll ident env, None))) \<and>
     (\<forall>la ws wp customerID ks key.
        decode_error metadata = None \<and>
        WasNotFound (HttpResponse (fst (fst (ManagedEnvironmentClient_Get cl ident (remote w))))) \<and>
        loganalyticsParse_LogAnalyticsWorkspaceID hp (LogAnalyticsWorkspaceId (ResourceData_values metadata)) = Inr la \<and>
        ws = WorkspacesClient_Get cl (la_ResourceGroup la) (la_WorkspaceName la)
               (snd (ManagedEnvironmentClient_Get cl ident (remote w))) \<and>
        snd (fst ws) = None \<and>
        ws_WorkspaceProperties (fst (fst ws)) = Some wp \<and>
        CustomerID wp = Some customerID \<and>
        ks = SharedKeysClient_GetSharedKeys cl (la_ResourceGroup la) (la_WorkspaceName la) (snd ws) \<and>
        snd (fst ks) = None \<and>
        PrimarySharedKey (fst (fst ks)) = Some key
        \<longrightarrow>
        new_calls w w' \<noteq> [] \<and>
        (case last (new_calls w w') of
           (ManagedEnvironments_CreateOrUpdateThenPoll i env, e) \<Rightarrow>
             i = ident \<and>
             out = Returned (case e of None \<Rightarrow> None
                     | Some r \<Rightarrow> Some (Errorf ''creating %s: %+v''
                         [AManagedEnvironmentId ident, AErr (Some (RemoteError r))]))
         | _ \<Rightarrow> False))"
proof (intro conjI allI impI)
  fix i env e
  assume "(ManagedEnvironments_CreateOrUpdateThenPoll i env, e) \<in> set (new_calls w w')"
  from Create_request_vnet [OF assms(1) this]
  show "\<exists>props vnet.
         me_Properties env = Some props \<and> props_VnetConfiguration props = Some vnet \<and>
         vnet_InfrastructureSubnetId vnet =
           (if InfrastructureSubnetId (ResourceData_values metadata) = [] then None
            else Some (InfrastructureSubnetId (ResourceData_values metadata))) \<and>
         vnet_Internal vnet =
           (if InfrastructureSubnetId (ResourceData_values metadata) = [] then None
            else Some (InternalLoadBalancerEnabled (ResourceData_values metadata)))" .
next
  assume "out = Returned None"
  with assms(1) have "ContainerAppEnvironmentResource_Create hp cl metadata w = (Returned None, metadata', w')"
    by simp
  from Create_success_sends [OF this] assms(2)
  show "\<exists>env. last (new_calls w w') = (ManagedEnvironments_CreateOrUpdateThenPoll ident env, None)"
    by simp
next
  fix la ws wp customerID ks key
  assume h: "decode_error metadata = None \<and>
        WasNotFound (HttpResponse (fst (fst (ManagedEnvironmentClient_Get cl ident (remote w))))) \<and>
        loganalyticsParse_LogAnalyticsWorkspaceID hp (LogAnalyticsWorkspaceId (ResourceData_values metadata)) = Inr la \<and>
        ws = WorkspacesClient_Get cl (la_ResourceGroup la) (la_WorkspaceName la)
               (snd (ManagedEnvironmentClient_Get cl ident (remote w))) \<and>
        snd (fst ws) = None \<and>
        ws_WorkspaceProperties (fst (fst ws)) = Some wp \<and>
        CustomerID wp = Some customerID \<and>
        ks = SharedKeysClient_GetSharedKeys cl (la_ResourceGroup la) (la_WorkspaceName la) (snd ws) \<and>
        snd (fst ks) = None \<and>
        PrimarySharedKey (fst (fst ks)) = Some key"
  have r: "new_calls w w' \<noteq> [] \<and>
        (case last (new_calls w w') of
           (ManagedEnvironments_CreateOrUpdateThenPoll i env, e) \<Rightarrow>
             i = ident \<and>
             out = Returned (case e of None \<Rightarrow> None
                     | Some r \<Rightarrow> Some (Errorf ''creating %s: %+v''
                         [AManagedEnvironmentId ident, AErr (Some (RemoteError r))]))
         | _ \<Rightarrow> False)"
    by (rule Create_reaches_request [OF assms(1) _ assms(2)]) (use h in blast)+
  from r show "new_calls w w' \<noteq> []" by (rule conjunct1)
  from r show "case last (new_calls w w') of
           (ManagedEnvironments_CreateOrUpdateThenPoll i env, e) \<Rightarrow>
             i = ident \<and>
             out = Returned (case e of None \<Rightarrow> None
                     | Some r \<Rightarrow> Some (Errorf ''creating %s: %+v''
                         [AManagedEnvironmentId ident, AErr (Some (RemoteError r))]))
         | _ \<Rightarrow> False" by (rule conjunct2)
qed

theorem Create_vnet_configuration_witness:
  "ContainerAppEnvironmentResource_Create example_Helpers store_Client
     (example_metadata example_config_no_subnet) empty_world =
     (Returned None,
      (example_metadata example_config_no_subnet)\<lparr>ResourceData_Id :=
        ''/subscriptions/sub1/resourceGroups/rg1/providers/Microsoft.App/managedEnvironments/env1''\<rparr>,
      \<lparr>remote = \<lparr>environments = [example_environment_id \<mapsto> example_request_no_subnet], admins = Map.empty\<rparr>,
       calls = [(ManagedEnvironments_Get example_environment_id, Some ''ResourceNotFound''),
                (Workspaces_Get ''rg1'' ''law1'', None),
                (SharedKeys_GetSharedKeys ''rg1'' ''law1'', None),
                (ManagedEnvironments_CreateOrUpdateThenPoll example_environment_id example_request_no_subnet, None)]\<rparr>) \<and>
   InternalLoadBalancerEnabled (ResourceData_values (example_metadata example_config_no_subnet)) \<and>
   (\<exists>props vnet.
     me_Properties example_request_no_subnet = Some props \<and> props_VnetConfiguration props = Some vnet \<and>
     vnet_InfrastructureSubnetId vnet = None \<and> vnet_Internal vnet = None) \<and>
   ContainerAppEnvironmentResource_Create example_Helpers store_Client (example_metadata example_config) empty_world =
     (Returned None,
      example_metadata_stored,
      \<lparr>remote = \<lparr>environments = [example_environment_id \<mapsto> example_request], admins = Map.empty\<rparr>,
       calls = [(ManagedEnvironments_Get example_environment_id, Some ''ResourceNotFound''),
                (Workspaces_Get ''rg1'' ''law1'', None),
                (SharedKeys_GetSharedKeys ''rg1'' ''law1'', None),
                (ManagedEnvironments_CreateOrUpdateThenPoll example_environment_id example_request, None)]\<rparr>) \<and>
   (\<exists>props vnet.
     me_Properties example_request = Some props \<and> props_VnetConfiguration props = Some vnet \<and>
     vnet_InfrastructureSubnetId vnet = Some ''subnet1'' \<and> vnet_Internal vnet = Some True) \<and>
   (\<exists>env. last (new_calls empty_world
       \<lparr>remote = \<lparr>environments = [example_environment_id \<mapsto> example_request], admins = Map.empty\<rparr>,
        calls = [(ManagedEnvironments_Get example_environment_id, Some ''ResourceNotFound''),
                 (Workspaces_Get ''rg1'' ''law1'', None),
                 (SharedKeys_GetSharedKeys ''rg1'' ''law1'', None),
                 (ManagedEnvironments_CreateOrUpdateThenPoll example_environment_id example_request, None)]\<rparr>)
      = (ManagedEnvironments_CreateOrUpdateThenPoll example_environment_id env, None))"
proof -
  let ?w0 = "\<lparr>remote = \<lparr>environments = [example_environment_id \<mapsto> example_request_no_subnet], admins = Map.empty\<rparr>,
       calls = [(ManagedEnvironments_Get example_environment_id, Some ''ResourceNotFound''),
                (Workspaces_Get ''rg1'' ''law1'', None),
                (SharedKeys_GetSharedKeys ''rg1'' ''law1'', None),
                (ManagedEnvironments_CreateOrUpdateThenPoll example_environment_id example_request_no_subnet, None)]\<rparr>"
  let ?w1 = "\<lparr>remote = \<lparr>environments = [example_environment_id \<mapsto> example_request], admins = Map.empty\<rparr>,
       calls = [(ManagedEnvironments_Get example_environment_id, Some ''ResourceNotFound''),
                (Workspaces_Get ''rg1'' ''law1'', None),
                (SharedKeys_GetSharedKeys ''rg1'' ''law1'', None),
                (ManagedEnvironments_CreateOrUpdateThenPoll example_environment_id example_request, None)]\<rparr>"
  have called0: "(ManagedEnvironments_CreateOrUpdateThenPoll example_environment_id example_request_no_subnet, None)
      \<in> set (new_calls empty_world ?w0)"
    by (simp add: new_calls_def empty_world_def)
  have called1: "(ManagedEnvironments_CreateOrUpdateThenPoll example_environment_id example_request, None)
      \<in> set (new_calls empty_world ?w1)"
    by (simp add: new_calls_def empty_world_def)
  have cfg0: "InfrastructureSubnetId (ResourceData_values (example_metadata example_config_no_subnet)) = []"
       "InternalLoadBalancerEnabled (ResourceData_values (example_metadata example_config_no_subnet))"
    by (simp_all add: example_defs)
  have cfg1: "InfrastructureSubnetId (ResourceData_values (example_metadata example_config)) = ''subnet1''"
       "InternalLoadBalancerEnabled (ResourceData_values (example_metadata example_config)) = True"
    by (simp_all add: example_defs)
  have ident0: "example_environment_id =
      NewManagedEnvironmentID (Account_SubscriptionId (example_metadata example_config_no_subnet))
        (ResourceGroup (ResourceData_values (example_metadata example_config_no_subnet)))
        (Name (ResourceData_values (example_metadata example_config_no_subnet)))"
    by (simp add: example_defs NewManagedEnvironmentID_def)
  have ident1: "example_environment_id =
      NewManagedEnvironmentID (Account_SubscriptionId (example_metadata example_config))
        (ResourceGroup (ResourceData_values (example_metadata example_config)))
        (Name (ResourceData_values (example_metadata example_config)))"
    by (simp add: example_defs NewManagedEnvironmentID_def)
  from Create_vnet_configuration [OF run_Create_example_no_subnet ident0, THEN conjunct1, rule_format, OF called0]
  have a: "\<exists>props vnet.
     me_Properties example_request_no_subnet = Some props \<and> props_VnetConfiguration props = Some vnet \<and>
     vnet_InfrastructureSubnetId vnet = None \<and> vnet_Internal vnet = None"
    by (simp add: cfg0)
  from Create_vnet_configuration [OF run_Create_example ident1, THEN conjunct1, rule_format, OF called1]
  have b: "\<exists>props vnet.
     me_Properties example_request = Some props \<and> props_VnetConfiguration props = Some vnet \<and>
     vnet_InfrastructureSubnetId vnet = Some ''subnet1'' \<and> vnet_Internal vnet = Some True"
    by (simp add: cfg1)
  from Create_vnet_configuration [OF run_Create_example ident1, THEN conjunct2, THEN conjunct1, THEN mp, OF refl]
  have c: "\<exists>env. last (new_calls empty_world ?w1)
      = (ManagedEnvironments_CreateOrUpdateThenPoll example_environment_id env, None)" .
  show ?thesis
    by (intro conjI) (rule run_Create_example_no_subnet cfg0(2) a run_Create_example b c)+
qed

section \<open>What Read does with \<open>log_analytics_workspace_id\<close>\<close>

text \<open>
  Claim C9. \<open>Read\<close> of the Container App Environment never takes
  \<open>log_analytics_workspace_id\<close> from the remote response: whatever the client answers and
  however \<open>Read\<close> ends, the field afterwards is the value the resource data held before,
  which \<open>Read\<close> copies into the zero-valued state only when it is non-empty; with no
  configured value the field stays at its zero value, the empty string.
\<close>

theorem Read_log_analytics_workspace_id_from_config:
  assumes "ContainerAppEnvironmentResource_Read hp cl metadata w = (out, metadata', w')"
  shows "LogAnalyticsWorkspaceId (ResourceData_values metadata') =
         LogAnalyticsWorkspaceId (ResourceData_values metadata)"
  using assms
  unfolding ContainerAppEnvironmentResource_Read_def client_defs Encode_def MarkAsGone_def Let_def
    zero_ContainerAppEnvironmentModel_def
  by (auto split: sum.splits prod.splits option.splits if_splits)

theorem Read_log_analytics_workspace_id_from_config_witness:
  "ContainerAppEnvironmentResource_Read example_Helpers store_Client example_metadata_stored world_with_environment =
     (Returned None,
      example_metadata_stored\<lparr>ResourceData_values := example_config\<lparr>Location := ''westeurope''\<rparr>\<rparr>,
      \<lparr>remote = \<lparr>environments = [example_environment_id \<mapsto> example_request], admins = Map.empty\<rparr>,
       calls = [(ManagedEnvironments_Get example_environment_id, None)]\<rparr>) \<and>
   LogAnalyticsWorkspaceId (ResourceData_values
      (example_metadata_stored\<lparr>ResourceData_values := example_config\<lparr>Location := ''westeurope''\<rparr>\<rparr>)) =
   ''/subscriptions/sub1/resourceGroups/rg1/providers/Microsoft.OperationalInsights/workspaces/law1''"
  using Read_log_analytics_workspace_id_from_config [OF run_Read_example] run_Read_example
  by (simp add: example_defs)

section \<open>Update\<close>

text \<open>
  Claim C5. When no configured field has changed, every model that \<open>Update\<close> submits to
  the remote create-or-update is exactly the model that its remote Get fetched for the same
  ID: the update is a no-op on the remote resource.
\<close>

theorem Update_unchanged_submits_fetched_model:
  assumes "\<forall>key. \<not> ResourceData_HasChange metadata key"
    and "ContainerAppEnvironmentResource_Update hp cl metadata w = (out, metadata', w')"
    and "(ManagedEnvironments_CreateOrUpdateThenPoll ident submitted, e) \<in> set (new_calls w w')"
  shows "ParseManagedEnvironmentID hp (ResourceData_Id metadata) = Inr ident \<and>
         Model (fst (fst (ManagedEnvironmentClient_Get cl ident (remote w)))) = Some submitted"
  using assms
  unfolding ContainerAppEnvironmentResource_Update_def client_defs new_calls_def Decode_def Let_def
  by (auto split: sum.splits prod.splits option.splits if_splits)

theorem Update_unchanged_submits_fetched_model_witness:
  "(\<forall>key. \<not> ResourceData_HasChange example_metadata_stored key) \<and>
   ContainerAppEnvironmentResource_Update example_Helpers store_Client example_metadata_stored world_with_environment =
     (Returned None, example_metadata_stored,
      \<lparr>remote = \<lparr>environments = [example_environment_id \<mapsto> example_request], admins = Map.empty\<rparr>,
       calls = [(ManagedEnvironments_Get example_environment_id, None),
                (ManagedEnvironments_CreateOrUpdateThenPoll example_environment_id example_request, None)]\<rparr>) \<and>
   ParseManagedEnvironmentID example_Helpers (ResourceData_Id example_metadata_stored) = Inr example_environment_id \<and>
   Model (fst (fst (ManagedEnvironmentClient_Get store_Client example_environment_id (remote world_with_environment))))
     = Some example_request"
proof -
  let ?w' = "\<lparr>remote = \<lparr>environments = [example_environment_id \<mapsto> example_request], admins = Map.empty\<rparr>,
       calls = [(ManagedEnvironments_Get example_environment_id, None),
                (ManagedEnvironments_CreateOrUpdateThenPoll example_environment_id example_request, None)]\<rparr>"
  have unchanged: "\<forall>key. \<not> ResourceData_HasChange example_metadata_stored key"
    by (simp add: example_metadata_stored_def example_metadata_def)
  have called: "(ManagedEnvironments_CreateOrUpdateThenPoll example_environment_id example_request, None)
      \<in> set (new_calls world_with_environment ?w')"
    by (simp add: new_calls_def world_with_environment_def)
  show ?thesis
    using Update_unchanged_submits_fetched_model [OF unchanged run_Update_example called]
      unchanged run_Update_example
    by simp
qed

text \<open>
  Claim C6. \<open>Update\<close> of the Container App Environment changes only the tags of the remote
  model, and only when the \<open>tags\<close> field has a change: in every model it submits, each
  other property equals that of the model its remote Get fetched, and the tags are the
  configured ones when \<open>tags\<close> changed and the fetched ones otherwise.
\<close>

theorem Update_changes_only_tags:
  assumes "ContainerAppEnvironmentResource_Update hp cl metadata w = (out, metadata', w')"
    and "(ManagedEnvironments_CreateOrUpdateThenPoll ident submitted, e) \<in> set (new_calls w w')"
  shows "\<exists>fetched.
     Model (fst (fst (ManagedEnvironmentClient_Get cl ident (remote w)))) = Some fetched \<and>
     me_Location submitted = me_Location fetched \<and>
     me_Name submitted = me_Name fetched \<and>
     me_Properties submitted = me_Properties fetched \<and>
     me_SystemData submitted = me_SystemData fetched \<and>
     me_Tags submitted =
       (if ResourceData_HasChange metadata ''tags''
        then tags_Expand (Tags (ResourceData_values metadata)) else me_Tags fetched)"
  using assms
  unfolding ContainerAppEnvironmentResource_Update_def client_defs new_calls_def Decode_def Let_def
  by (auto split: sum.splits prod.splits option.splits if_splits)

theorem Update_changes_only_tags_witness:
  "ContainerAppEnvironmentResource_Update example_Helpers store_Client
     (example_metadata_stored
        \<lparr>ResourceData_values := example_config\<lparr>Tags := [''env'' \<mapsto> ''prod'']\<rparr>,
         ResourceData_HasChange := (\<lambda>key. key = ''tags'')\<rparr>)
     world_with_environment =
     (Returned None,
      example_metadata_stored
        \<lparr>ResourceData_values := example_config\<lparr>Tags := [''env'' \<mapsto> ''prod'']\<rparr>,
         ResourceData_HasChange := (\<lambda>key. key = ''tags'')\<rparr>,
      \<lparr>remote = \<lparr>environments = [example_environment_id \<mapsto> example_request\<lparr>me_Tags := Some [''env'' \<mapsto> ''prod'']\<rparr>],
                 admins = Map.empty\<rparr>,
       calls = [(ManagedEnvironments_Get example_environment_id, None),
                (ManagedEnvironments_CreateOrUpdateThenPoll example_environment_id
                   (example_request\<lparr>me_Tags := Some [''env'' \<mapsto> ''prod'']\<rparr>), None)]\<rparr>) \<and>
   (\<exists>fetched.
     Model (fst (fst (ManagedEnvironmentClient_Get store_Client example_environment_id (remote world_with_environment))))
       = Some fetched \<and>
     me_Location (example_request\<lparr>me_Tags := Some [''env'' \<mapsto> ''prod'']\<rparr>) = me_Location fetched \<and>
     me_Properties (example_request\<lparr>me_Tags := Some [''env'' \<mapsto> ''prod'']\<rparr>) = me_Properties fetched \<and>
     me_Tags fetched = Some [''env'' \<mapsto> ''test''] \<and>
     me_Tags (example_request\<lparr>me_Tags := Some [''env'' \<mapsto> ''prod'']\<rparr>) = Some [''env'' \<mapsto> ''prod''])"
proof -
  let ?w' = "\<lparr>remote = \<lparr>environments = [example_environment_id \<mapsto> example_request\<lparr>me_Tags := Some [''env'' \<mapsto> ''prod'']\<rparr>],
                 admins = Map.empty\<rparr>,
       calls = [(ManagedEnvironments_Get example_environment_id, None),
                (ManagedEnvironments_CreateOrUpdateThenPoll example_environment_id
                   (example_request\<lparr>me_Tags := Some [''env'' \<mapsto> ''prod'']\<rparr>), None)]\<rparr>"
  have called: "(ManagedEnvironments_CreateOrUpdateThenPoll example_environment_id
                   (example_request\<lparr>me_Tags := Some [''env'' \<mapsto> ''prod'']\<rparr>), None)
      \<in> set (new_calls world_with_environment ?w')"
    by (simp add: new_calls_def world_with_environment_def)
  have fetched: "Model (fst (fst (ManagedEnvironmentClient_Get store_Client example_environment_id (remote world_with_environment))))
       = Some example_request"
    by (simp add: store_Client_def world_with_environment_def)
  have tags: "me_Tags example_request = Some [''env'' \<mapsto> ''test'']"
    by (simp add: example_request_def)
  show ?thesis
    using Update_changes_only_tags [OF run_Update_example_tags called] run_Update_example_tags fetched tags
    by simp
qed

section \<open>Read when the remote entity is absent or incomplete\<close>

text \<open>
  \<open>Read\<close> of the Container App Environment: a Get error with a "not found" response marks
  the resource as gone (the ID is cleared and no error is returned), and no answer of the
  client makes it panic, since every nested pointer is read under a nil guard.
\<close>

lemma ContainerApp_Read_not_found_marks_gone:
  assumes "ParseManagedEnvironmentID hp (ResourceData_Id metadata) = Inr ident"
    and "ManagedEnvironmentClient_Get cl ident (remote w) = ((existing, Some e), r)"
    and "WasNotFound (HttpResponse existing)"
  shows "ContainerAppEnvironmentResource_Read hp cl metadata w =
           (Returned None, metadata\<lparr>ResourceData_Id := []\<rparr>,
            \<lparr>remote = r, calls = calls w @ [(ManagedEnvironments_Get ident, Some e)]\<rparr>)"
  using assms
  by (simp add: ContainerAppEnvironmentResource_Read_def client_defs MarkAsGone_def)

lemma ContainerApp_Read_never_panics:
  "fst (ContainerAppEnvironmentResource_Read hp cl metadata w) \<noteq> Panic"
  unfolding ContainerAppEnvironmentResource_Read_def client_defs Encode_def MarkAsGone_def Let_def
  by (auto split: sum.splits prod.splits option.splits if_splits)

text \<open>
  Claim C1. Every Read signals the resource-gone condition when the remote Get answers
  "not found". \<open>Read\<close> of the Synapse Workspace AAD Admin does not: run against a service
  that has no such admin (the Get answers 404 with an error and no properties), it neither
  clears the ID nor returns; it goes on as if the admin existed and panics at the nil
  \<open>AadAdminProperties\<close>, with the ID still in place.
\<close>

theorem Synapse_Read_not_found_is_not_gone:
  "fst (WorkspaceAadAdminsClient_Get store_Client ''rg1'' ''ws1'' (remote empty_world)) =
     (\<lparr>Response = Some 404, info_AadAdminProperties = None\<rparr>, Some ''ResourceNotFound'') \<and>
   WasNotFound (Some 404) \<and>
   fst (resourceSynapseWorkspaceAADAdmin OpRead example_Helpers store_Client example_d_stored empty_world) = Panic \<and>
   d_Id (fst (snd (resourceSynapseWorkspaceAADAdmin OpRead example_Helpers store_Client example_d_stored empty_world)))
     = ''/subscriptions/sub1/resourceGroups/rg1/providers/Microsoft.Synapse/workspaces/ws1/administrators/activeDirectory''"
  by (simp add: resourceSynapseWorkspaceAADAdmin_def resourceSynapseWorkspaceAADAdminRead_def
      client_defs helper_defs example_defs Let_def)

text \<open>
  Claim C2. Every Read flattens under nil guards and dereferences no nil pointer. \<open>Read\<close>
  of the Synapse Workspace AAD Admin reads \<open>aadAdmin.AadAdminProperties.Login\<close> without a
  guard: when the Get succeeds with status 200 and an answer that has no properties object,
  it panics after having written \<open>synapse_workspace_id\<close>.
\<close>

theorem Synapse_Read_nil_properties_panics:
  "fst (WorkspaceAadAdminsClient_Get store_Client ''rg1'' ''ws1'' (remote world_with_bare_admin)) =
     (\<lparr>Response = Some 200, info_AadAdminProperties = None\<rparr>, None) \<and>
   resourceSynapseWorkspaceAADAdminRead example_Helpers store_Client example_d_stored world_with_bare_admin =
     (Panic,
      d_Set example_d_stored ''synapse_workspace_id''
        (Some ''/subscriptions/sub1/resourceGroups/rg1/providers/Microsoft.Synapse/workspaces/ws1''),
      \<lparr>remote = remote world_with_bare_admin, calls = [(WorkspaceAadAdmins_Get ''rg1'' ''ws1'', None)]\<rparr>)"
  by (simp add: resourceSynapseWorkspaceAADAdminRead_def
      client_defs helper_defs example_defs Let_def)

section \<open>The existence check of Create\<close>

text \<open>
  The two creates on their own: the Container App Environment asks first, the Synapse
  Workspace AAD Admin does not ask at all.
\<close>

lemma ContainerApp_Create_existence_check:
  assumes "Decode metadata = Inr config"
    and "ContainerAppEnvironmentResource_Create hp cl metadata w = (out, metadata', w')"
    and "ident = NewManagedEnvironmentID (Account_SubscriptionId metadata) (ResourceGroup config) (Name config)"
    and "answer = fst (ManagedEnvironmentClient_Get cl ident (remote w))"
  shows "new_calls w w' \<noteq> [] \<and> hd (new_calls w w') = (ManagedEnvironments_Get ident, snd answer) \<and>
         (\<not> WasNotFound (HttpResponse (fst answer)) \<longrightarrow>
            new_calls w w' = [(ManagedEnvironments_Get ident, snd answer)] \<and> metadata' = metadata \<and>
            out = Returned (Some (case snd answer of
                    None \<Rightarrow> ResourceRequiresImport ResourceType ident
                  | Some e \<Rightarrow> Errorf ''checking for presence of existing %s: %+v''
                               [AManagedEnvironmentId ident, AErr (Some (RemoteError e))])))"
  using assms
  unfolding ContainerAppEnvironmentResource_Create_def client_defs new_calls_def Let_def AErrRemote_def
  by (auto split: sum.splits prod.splits option.splits if_splits)

lemma Synapse_CreateUpdate_first_call:
  assumes "resourceSynapseWorkspaceAADAdminCreateUpdate hp cl d v = (out, d', v')"
  shows "(\<forall>t i. out \<noteq> Returned (Some (ImportAsExistsError t i))) \<and>
     (case parse_WorkspaceID hp (d_Get d ''synapse_workspace_id'') of
        Inl e \<Rightarrow> out = Returned (Some (LocalError e)) \<and> new_calls v v' = []
      | Inr workspaceId \<Rightarrow>
          new_calls v v' \<noteq> [] \<and>
          fst (hd (new_calls v v')) =
            WorkspaceAadAdmins_CreateOrUpdate (wid_ResourceGroup workspaceId) (wid_Name workspaceId)
              \<lparr>Response = None,
               info_AadAdminProperties = Some
                 \<lparr>TenantID = Some (d_Get d ''tenant_id''),
                  Login = Some (d_Get d ''login''),
                  AdministratorType = Some ''ActiveDirectory'',
                  Sid = Some (d_Get d ''object_id'')\<rparr>\<rparr>)"
  using assms
  unfolding resourceSynapseWorkspaceAADAdminCreateUpdate_def resourceSynapseWorkspaceAADAdminRead_def
    client_defs new_calls_def Let_def AErrRemote_def utils_String_def
  by (auto split: sum.splits prod.splits option.splits if_splits)

text \<open>
  Claim C3, amended. \<open>Create\<close> of the Container App Environment makes the remote Get its
  first remote call, and when the response of that Get is not "not found" it makes no other
  call (so no remote create), leaves the resource data as it was and fails: with the
  import-required condition when the Get returned no error, and with the Get's error wrapped
  as "checking for presence of existing ..." otherwise. The create of the Synapse Workspace
  AAD Admin has no existence check: it never returns the import-required condition, and
  whenever the configured workspace ID parses, its first remote call is the create-or-update
  with the configured properties; when the ID does not parse it returns the parser's error
  and makes no remote call.
\<close>

theorem Create_existence_check:
  "(Decode metadata = Inr config \<and>
    ContainerAppEnvironmentResource_Create hp cl metadata w = (out, metadata', w') \<and>
    ident = NewManagedEnvironmentID (Account_SubscriptionId metadata) (ResourceGroup config) (Name config) \<and>
    answer = fst (ManagedEnvironmentClient_Get cl ident (remote w))
    \<longrightarrow>
    new_calls w w' \<noteq> [] \<and> hd (new_calls w w') = (ManagedEnvironments_Get ident, snd answer) \<and>
    (\<not> WasNotFound (HttpResponse (fst answer)) \<longrightarrow>
       new_calls w w' = [(ManagedEnvironments_Get ident, snd answer)] \<and> metadata' = metadata \<and>
       out = Returned (Some (case snd answer of
               None \<Rightarrow> ResourceRequiresImport ResourceType ident
             | Some e \<Rightarrow> Errorf ''checking for presence of existing %s: %+v''
                          [AManagedEnvironmentId ident, AErr (Some (RemoteError e))]))))
   \<and>
   (resourceSynapseWorkspaceAADAdmin OpCreate hp2 cl2 d v = (out2, d', v')
    \<longrightarrow>
    (\<forall>t i. out2 \<noteq> Returned (Some (ImportAsExistsError t i))) \<and>
    (case parse_WorkspaceID hp2 (d_Get d ''synapse_workspace_id'') of
       Inl e \<Rightarrow> out2 = Returned (Some (LocalError e)) \<and> new_calls v v' = []
     | Inr workspaceId \<Rightarrow>
         new_calls v v' \<noteq> [] \<and>
         fst (hd (new_calls v v')) =
           WorkspaceAadAdmins_CreateOrUpdate (wid_ResourceGroup workspaceId) (wid_Name workspaceId)
             \<lparr>Response = None,
              info_AadAdminProperties = Some
                \<lparr>TenantID = Some (d_Get d ''tenant_id''),
                 Login = Some (d_Get d ''login''),
                 AdministratorType = Some ''ActiveDirectory'',
                 Sid = Some (d_Get d ''object_id'')\<rparr>\<rparr>))"
  apply (rule conjI; rule impI)
   apply (elim conjE)
   apply (rule ContainerApp_Create_existence_check; assumption)
  apply (rule Synapse_CreateUpdate_first_call [of hp2 cl2 d v out2 d' v'])
  apply (simp add: resourceSynapseWorkspaceAADAdmin_def)
  done

theorem Create_existence_check_witness:
  "Decode (example_metadata example_config) = Inr example_config \<and>
   fst (ManagedEnvironmentClient_Get store_Client example_environment_id (remote world_with_environment)) =
     (\<lparr>HttpResponse = Some 200, Model = Some example_request\<rparr>, None) \<and>
   \<not> WasNotFound (Some 200) \<and>
   ContainerAppEnvironmentResource_Create example_Helpers store_Client (example_metadata example_config) world_with_environment =
     (Returned (Some (ImportAsExistsError ''azurerm_container_app_environment'' example_environment_id)),
      example_metadata example_config,
      \<lparr>remote = \<lparr>environments = [example_environment_id \<mapsto> example_request], admins = Map.empty\<rparr>,
       calls = [(ManagedEnvironments_Get example_environment_id, None)]\<rparr>) \<and>
   new_calls world_with_environment
      \<lparr>remote = \<lparr>environments = [example_environment_id \<mapsto> example_request], admins = Map.empty\<rparr>,
       calls = [(ManagedEnvironments_Get example_environment_id, None)]\<rparr>
     = [(ManagedEnvironments_Get example_environment_id, None)] \<and>
   parse_WorkspaceID example_Helpers (d_Get example_d ''synapse_workspace_id'') = Inr example_workspace_id \<and>
   fst (resourceSynapseWorkspaceAADAdmin OpCreate example_Helpers store_Client example_d world_with_admin) = Returned None \<and>
   fst (hd (new_calls world_with_admin
      (snd (snd (resourceSynapseWorkspaceAADAdmin OpCreate example_Helpers store_Client example_d world_with_admin))))) =
     WorkspaceAadAdmins_CreateOrUpdate ''rg1'' ''ws1''
       \<lparr>Response = None,
        info_AadAdminProperties = Some
          \<lparr>TenantID = Some ''00000000-0000-0000-0000-000000000002'',
           Login = Some ''admin'',
           AdministratorType = Some ''ActiveDirectory'',
           Sid = Some ''00000000-0000-0000-0000-000000000001''\<rparr>\<rparr>"
proof -
  have dec: "Decode (example_metadata example_config) = Inr example_config"
    by (simp add: Decode_def example_metadata_def)
  have ident: "example_environment_id =
      NewManagedEnvironmentID (Account_SubscriptionId (example_metadata example_config))
        (ResourceGroup example_config) (Name example_config)"
    by (simp add: example_defs NewManagedEnvironmentID_def)
  have answer: "fst (ManagedEnvironmentClient_Get store_Client example_environment_id (remote world_with_environment)) =
     (\<lparr>HttpResponse = Some 200, Model = Some example_request\<rparr>, None)"
    by (simp add: store_Client_def world_with_environment_def)
  have found: "\<not> WasNotFound (Some 200)"
    by (simp add: WasNotFound_def)
  have ca_hyps: "Decode (example_metadata example_config) = Inr example_config \<and>
    ContainerAppEnvironmentResource_Create example_Helpers store_Client (example_metadata example_config) world_with_environment =
     (Returned (Some (ImportAsExistsError ''azurerm_container_app_environment'' example_environment_id)),
      example_metadata example_config,
      \<lparr>remote = \<lparr>environments = [example_environment_id \<mapsto> example_request], admins = Map.empty\<rparr>,
       calls = [(ManagedEnvironments_Get example_environment_id, None)]\<rparr>) \<and>
    example_environment_id =
      NewManagedEnvironmentID (Account_SubscriptionId (example_metadata example_config))
        (ResourceGroup example_config) (Name example_config) \<and>
    (\<lparr>HttpResponse = Some 200, Model = Some example_request\<rparr>, None) =
      fst (ManagedEnvironmentClient_Get store_Client example_environment_id (remote world_with_environment))"
    by (intro conjI) (rule dec run_Create_existing ident answer [symmetric])+
  from Create_existence_check [THEN conjunct1, THEN mp, OF ca_hyps] found
  have ca: "new_calls world_with_environment
      \<lparr>remote = \<lparr>environments = [example_environment_id \<mapsto> example_request], admins = Map.empty\<rparr>,
       calls = [(ManagedEnvironments_Get example_environment_id, None)]\<rparr>
     = [(ManagedEnvironments_Get example_environment_id, None)]"
    by simp
  have syn_parse: "parse_WorkspaceID example_Helpers (d_Get example_d ''synapse_workspace_id'') = Inr example_workspace_id"
    by (simp add: example_defs d_Get_def)
  have syn_run: "resourceSynapseWorkspaceAADAdmin OpCreate example_Helpers store_Client example_d world_with_admin =
     (fst (resourceSynapseWorkspaceAADAdmin OpCreate example_Helpers store_Client example_d world_with_admin),
      fst (snd (resourceSynapseWorkspaceAADAdmin OpCreate example_Helpers store_Client example_d world_with_admin)),
      snd (snd (resourceSynapseWorkspaceAADAdmin OpCreate example_Helpers store_Client example_d world_with_admin)))"
    by simp
  have syn_out: "fst (resourceSynapseWorkspaceAADAdmin OpCreate example_Helpers store_Client example_d world_with_admin) = Returned None"
    by (simp add: resourceSynapseWorkspaceAADAdmin_def run_Synapse_CreateUpdate_existing)
  have fields: "d_Get example_d ''tenant_id'' = ''00000000-0000-0000-0000-000000000002''"
    "d_Get example_d ''login'' = ''admin''"
    "d_Get example_d ''object_id'' = ''00000000-0000-0000-0000-000000000001''"
    "wid_ResourceGroup example_workspace_id = ''rg1''" "wid_Name example_workspace_id = ''ws1''"
    by (simp_all add: example_d_def d_Get_def example_workspace_id_def NewWorkspaceID_def)
  from Create_existence_check [THEN conjunct2, THEN mp, OF syn_run]
  have syn: "fst (hd (new_calls world_with_admin
      (snd (snd (resourceSynapseWorkspaceAADAdmin OpCreate example_Helpers store_Client example_d world_with_admin))))) =
     WorkspaceAadAdmins_CreateOrUpdate ''rg1'' ''ws1''
       \<lparr>Response = None,
        info_AadAdminProperties = Some
          \<lparr>TenantID = Some ''00000000-0000-0000-0000-000000000002'',
           Login = Some ''admin'',
           AdministratorType = Some ''ActiveDirectory'',
           Sid = Some ''00000000-0000-0000-0000-000000000001''\<rparr>\<rparr>"
    by (simp add: syn_parse fields)
  show ?thesis
    by (intro conjI) (rule dec answer found run_Create_existing ca syn_parse syn_out syn)+
qed

text \<open>
  Claim C3 as stated fails for the Synapse Workspace AAD Admin: its Create is
  \<open>CreateUpdate\<close>, which never asks whether the admin exists. In a world where the admin
  exists (the Get answers 200 without error), Create calls the remote create-or-update first
  and returns no error.
\<close>

theorem Synapse_Create_makes_no_existence_check:
  "fst (WorkspaceAadAdminsClient_Get store_Client ''rg1'' ''ws1'' (remote world_with_admin)) =
     (\<lparr>Response = Some 200, info_AadAdminProperties = Some
         \<lparr>TenantID = Some ''00000000-0000-0000-0000-000000000009'',
          Login = Some ''previous'',
          AdministratorType = Some ''ActiveDirectory'',
          Sid = Some ''00000000-0000-0000-0000-000000000008''\<rparr>\<rparr>, None) \<and>
   \<not> WasNotFound (Some 200) \<and>
   fst (resourceSynapseWorkspaceAADAdmin OpCreate example_Helpers store_Client example_d world_with_admin) = Returned None \<and>
   calls (snd (snd (resourceSynapseWorkspaceAADAdmin OpCreate example_Helpers store_Client example_d world_with_admin))) =
     [(WorkspaceAadAdmins_CreateOrUpdate ''rg1'' ''ws1''
         \<lparr>Response = None, info_AadAdminProperties = Some
           \<lparr>TenantID = Some ''00000000-0000-0000-0000-000000000002'',
            Login = Some ''admin'',
            AdministratorType = Some ''ActiveDirectory'',
            Sid = Some ''00000000-0000-0000-0000-000000000001''\<rparr>\<rparr>, None),
      (Future_WaitForCompletionRef 0, None),
      (WorkspaceAadAdmins_Get ''rg1'' ''ws1'', None)]"
  by (simp add: resourceSynapseWorkspaceAADAdmin_def resourceSynapseWorkspaceAADAdminCreateUpdate_def
      resourceSynapseWorkspaceAADAdminRead_def client_defs helper_defs example_defs Let_def)

section \<open>Errors of remote calls\<close>










section \<open>Create followed by Read\<close>

text \<open>
  What a successful \<open>Create\<close> has sent and stored, what \<open>Read\<close> makes of a complete
  answer, and the two put together for each resource.
\<close>

lemma Create_success:
  assumes "ContainerAppEnvironmentResource_Create hp cl metadata w = (Returned None, metadata1, w1)"
    and "config = ResourceData_values metadata"
    and "ident = NewManagedEnvironmentID (Account_SubscriptionId metadata) (ResourceGroup config) (Name config)"
  shows "\<exists>input r props.
     ManagedEnvironmentClient_CreateOrUpdateThenPoll cl ident input r = (None, remote w1) \<and>
     metadata1 = SetID hp metadata ident \<and>
     me_Location input = Location config \<and>
     me_Tags input = Some (Tags config) \<and>
     me_Properties input = Some props \<and>
     props_VnetConfiguration props = Some
       (if InfrastructureSubnetId config = [] then empty_VnetConfiguration
        else empty_VnetConfiguration
               \<lparr>vnet_InfrastructureSubnetId := Some (InfrastructureSubnetId config),
                vnet_Internal := Some (InternalLoadBalancerEnabled config)\<rparr>)"
  using assms
  unfolding ContainerAppEnvironmentResource_Create_def client_defs Decode_def Let_def
    utils_String_def utils_Bool_def tags_Expand_def
  apply (simp split: sum.splits prod.splits option.splits if_splits)
   apply (clarsimp, rule exI, rule conjI, rule exI, assumption, simp)
  apply (clarsimp, rule exI, rule conjI, rule exI, assumption, simp)
  done

lemma Read_flatten:
  assumes "ParseManagedEnvironmentID hp (ResourceData_Id metadata) = Inr ident"
    and "ManagedEnvironmentClient_Get cl ident (remote w) = ((\<lparr>HttpResponse = resp, Model = Some model\<rparr>, None), r)"
    and "encode_error metadata = None"
    and "me_Properties model = Some props"
    and "props_VnetConfiguration props = Some vnet"
    and "ContainerAppEnvironmentResource_Read hp cl metadata w = (out, metadata2, w2)"
  shows "out = Returned None \<and>
     Name (ResourceData_values metadata2) = EnvironmentName ident \<and>
     ResourceGroup (ResourceData_values metadata2) = ResourceGroupName ident \<and>
     Location (ResourceData_values metadata2) = location_Normalize hp (me_Location model) \<and>
     Tags (ResourceData_values metadata2) = tags_Flatten (me_Tags model) \<and>
     InfrastructureSubnetId (ResourceData_values metadata2) = NormalizeNilableString (vnet_InfrastructureSubnetId vnet) \<and>
     InternalLoadBalancerEnabled (ResourceData_values metadata2) = NormaliseNilableBool (vnet_Internal vnet) \<and>
     LogAnalyticsWorkspaceId (ResourceData_values metadata2) = LogAnalyticsWorkspaceId (ResourceData_values metadata)"
  using assms
  unfolding ContainerAppEnvironmentResource_Read_def client_defs Encode_def Let_def
    zero_ContainerAppEnvironmentModel_def
  by (auto split: sum.splits prod.splits option.splits if_splits)

lemma ContainerApp_round_trip:
  assumes dec: "Decode metadata = Inr config"
    and ident: "ident = NewManagedEnvironmentID (Account_SubscriptionId metadata) (ResourceGroup config) (Name config)"
    and parse: "ParseManagedEnvironmentID hp (ManagedEnvironmentId_ID hp ident) = Inr ident"
    and stored: "\<forall>input r r'. ManagedEnvironmentClient_CreateOrUpdateThenPoll cl ident input r = (None, r') \<longrightarrow>
        (\<exists>resp r''. ManagedEnvironmentClient_Get cl ident r' = ((\<lparr>HttpResponse = resp, Model = Some input\<rparr>, None), r''))"
    and enc: "encode_error metadata = None"
    and create: "ContainerAppEnvironmentResource_Create hp cl metadata w = (Returned None, metadata1, w1)"
    and read: "ContainerAppEnvironmentResource_Read hp cl metadata1 w1 = (out, metadata2, w2)"
  shows "out = Returned None \<and>
     Name (ResourceData_values metadata2) = Name config \<and>
     ResourceGroup (ResourceData_values metadata2) = ResourceGroup config \<and>
     Location (ResourceData_values metadata2) = location_Normalize hp (Location config) \<and>
     LogAnalyticsWorkspaceId (ResourceData_values metadata2) = LogAnalyticsWorkspaceId config \<and>
     InfrastructureSubnetId (ResourceData_values metadata2) = InfrastructureSubnetId config \<and>
     InternalLoadBalancerEnabled (ResourceData_values metadata2) =
       (InfrastructureSubnetId config \<noteq> [] \<and> InternalLoadBalancerEnabled config) \<and>
     Tags (ResourceData_values metadata2) = Tags config"
proof -
  have config: "config = ResourceData_values metadata"
    using dec by (auto simp: Decode_def split: option.splits)
  from Create_success [OF create config ident]
  obtain input r props where
    sent: "ManagedEnvironmentClient_CreateOrUpdateThenPoll cl ident input r = (None, remote w1)"
    and md1: "metadata1 = SetID hp metadata ident"
    and loc: "me_Location input = Location config"
    and tags: "me_Tags input = Some (Tags config)"
    and props: "me_Properties input = Some props"
    and vnet: "props_VnetConfiguration props = Some
       (if InfrastructureSubnetId config = [] then empty_VnetConfiguration
        else empty_VnetConfiguration
               \<lparr>vnet_InfrastructureSubnetId := Some (InfrastructureSubnetId config),
                vnet_Internal := Some (InternalLoadBalancerEnabled config)\<rparr>)"
    by blast
  from stored sent obtain resp r'' where
    got: "ManagedEnvironmentClient_Get cl ident (remote w1) = ((\<lparr>HttpResponse = resp, Model = Some input\<rparr>, None), r'')"
    by blast
  have parse1: "ParseManagedEnvironmentID hp (ResourceData_Id metadata1) = Inr ident"
    using parse md1 by (simp add: SetID_def)
  have enc1: "encode_error metadata1 = None"
    using enc md1 by (simp add: SetID_def)
  have vals1: "ResourceData_values metadata1 = config"
    using config md1 by (simp add: SetID_def)
  from Read_flatten [OF parse1 got enc1 props vnet read]
  show ?thesis
    using loc tags vals1 ident
    by (auto simp: NewManagedEnvironmentID_def tags_Flatten_def NormalizeNilableString_def
        NormaliseNilableBool_def empty_VnetConfiguration_def)
qed

lemma Synapse_round_trip:
  assumes parse: "parse_WorkspaceID hp (d_Get d ''synapse_workspace_id'') = Inr workspaceId"
    and ident: "ident = NewWorkspaceAADAdminID (wid_SubscriptionId workspaceId) (wid_ResourceGroup workspaceId)
                  (wid_Name workspaceId) ''activeDirectory''"
    and parse_admin: "parse_WorkspaceAADAdminID hp (WorkspaceAADAdminId_ID hp ident) = Inr ident"
    and stored: "\<forall>aadAdmin r fut r1 r2.
        WorkspaceAadAdminsClient_CreateOrUpdate cl (wid_ResourceGroup workspaceId) (wid_Name workspaceId) aadAdmin r = ((fut, None), r1) \<and>
        WaitForCompletionRef cl fut r1 = (None, r2) \<longrightarrow>
        (\<exists>resp r3. WorkspaceAadAdminsClient_Get cl (wid_ResourceGroup workspaceId) (wid_Name workspaceId) r2 =
           ((\<lparr>Response = resp, info_AadAdminProperties = info_AadAdminProperties aadAdmin\<rparr>, None), r3))"
    and create: "resourceSynapseWorkspaceAADAdminCreateUpdate hp cl d w = (Returned None, d', w')"
  shows "d_Get d' ''login'' = d_Get d ''login'' \<and>
     d_Get d' ''object_id'' = d_Get d ''object_id'' \<and>
     d_Get d' ''tenant_id'' = d_Get d ''tenant_id'' \<and>
     d_Get d' ''synapse_workspace_id'' = WorkspaceId_ID hp workspaceId \<and>
     d_Id d' = WorkspaceAADAdminId_ID hp ident"
proof -
  let ?rg = "wid_ResourceGroup workspaceId" and ?name = "wid_Name workspaceId"
  let ?aadAdmin = "\<lparr>Response = None, info_AadAdminProperties = Some
              \<lparr>TenantID = utils_String (d_Get d ''tenant_id''),
               Login = utils_String (d_Get d ''login''),
               AdministratorType = utils_String ''ActiveDirectory'',
               Sid = utils_String (d_Get d ''object_id'')\<rparr>\<rparr>"
  obtain fut err1 r1 where c1: "WorkspaceAadAdminsClient_CreateOrUpdate cl ?rg ?name ?aadAdmin (remote w) = ((fut, err1), r1)"
    by (metis surj_pair)
  obtain err2 r2 where c2: "WaitForCompletionRef cl fut r1 = (err2, r2)"
    by (metis surj_pair)
  have e1: "err1 = None"
    using create parse c1
    unfolding resourceSynapseWorkspaceAADAdminCreateUpdate_def client_defs Let_def
    by (auto split: option.splits prod.splits)
  have e2: "err2 = None"
    using create parse c1 c2 e1
    unfolding resourceSynapseWorkspaceAADAdminCreateUpdate_def client_defs Let_def
    by (auto split: option.splits prod.splits)
  from stored c1 c2 e1 e2 obtain resp r3 where
    got: "WorkspaceAadAdminsClient_Get cl ?rg ?name r2 =
           ((\<lparr>Response = resp, info_AadAdminProperties = info_AadAdminProperties ?aadAdmin\<rparr>, None), r3)"
    by blast
  have wid: "NewWorkspaceID (wid_SubscriptionId workspaceId) ?rg ?name = workspaceId"
    by (simp add: NewWorkspaceID_def)
  show ?thesis
    using create parse c1 c2 e1 e2 got parse_admin ident wid
    unfolding resourceSynapseWorkspaceAADAdminCreateUpdate_def resourceSynapseWorkspaceAADAdminRead_def
      client_defs Let_def
    by (auto simp: d_Get_def d_Set_def d_SetId_def utils_String_def NormalizeNilableString_def
        NewWorkspaceAADAdminID_def)
qed

text \<open>
  Claim C4, amended. Assume the remote API returns exactly what was stored and parsing an ID
  inverts formatting it. After \<open>Create\<close> and \<open>Read\<close> of the Container App Environment,
  \<open>name\<close>, \<open>resource_group_name\<close>, \<open>log_analytics_workspace_id\<close>,
  \<open>infrastructure_subnet_id\<close> and \<open>tags\<close> are the configured values, \<open>location\<close>
  is \<open>location.Normalize\<close> of the configured value, and
  \<open>internal_load_balancer_enabled\<close> is the configured value when a subnet ID is configured
  and false when none is. After a successful create of the Synapse Workspace AAD Admin (which
  ends in \<open>Read\<close>), \<open>login\<close>, \<open>object_id\<close> and \<open>tenant_id\<close> are the
  configured values and \<open>synapse_workspace_id\<close> is the parsed workspace ID formatted
  again.
\<close>

theorem create_then_read_round_trip:
  "(Decode metadata = Inr config \<and>
    ident = NewManagedEnvironmentID (Account_SubscriptionId metadata) (ResourceGroup config) (Name config) \<and>
    ParseManagedEnvironmentID hp (ManagedEnvironmentId_ID hp ident) = Inr ident \<and>
    (\<forall>input r r'. ManagedEnvironmentClient_CreateOrUpdateThenPoll cl ident input r = (None, r') \<longrightarrow>
        (\<exists>resp r''. ManagedEnvironmentClient_Get cl ident r' =
           ((\<lparr>HttpResponse = resp, Model = Some input\<rparr>, None), r''))) \<and>
    encode_error metadata = None \<and>
    ContainerAppEnvironmentResource_Create hp cl metadata w = (Returned None, metadata1, w1) \<and>
    ContainerAppEnvironmentResource_Read hp cl metadata1 w1 = (out, metadata2, w2)
    \<longrightarrow>
    out = Returned None \<and>
    Name (ResourceData_values metadata2) = Name config \<and>
    ResourceGroup (ResourceData_values metadata2) = ResourceGroup config \<and>
    Location (ResourceData_values metadata2) = location_Normalize hp (Location config) \<and>
    LogAnalyticsWorkspaceId (ResourceData_values metadata2) = LogAnalyticsWorkspaceId config \<and>
    InfrastructureSubnetId (ResourceData_values metadata2) = InfrastructureSubnetId config \<and>
    InternalLoadBalancerEnabled (ResourceData_values metadata2) =
      (InfrastructureSubnetId config \<noteq> [] \<and> InternalLoadBalancerEnabled config) \<and>
    Tags (ResourceData_values metadata2) = Tags config)
   \<and>
   (parse_WorkspaceID hp' (d_Get d ''synapse_workspace_id'') = Inr workspaceId \<and>
    adminId = NewWorkspaceAADAdminID (wid_SubscriptionId workspaceId) (wid_ResourceGroup workspaceId)
                (wid_Name workspaceId) ''activeDirectory'' \<and>
    parse_WorkspaceAADAdminID hp' (WorkspaceAADAdminId_ID hp' adminId) = Inr adminId \<and>
    (\<forall>aadAdmin r fut r1 r2.
        WorkspaceAadAdminsClient_CreateOrUpdate cl' (wid_ResourceGroup workspaceId) (wid_Name workspaceId) aadAdmin r
          = ((fut, None), r1) \<and>
        WaitForCompletionRef cl' fut r1 = (None, r2) \<longrightarrow>
        (\<exists>resp r3. WorkspaceAadAdminsClient_Get cl' (wid_ResourceGroup workspaceId) (wid_Name workspaceId) r2 =
           ((\<lparr>Response = resp, info_AadAdminProperties = info_AadAdminProperties aadAdmin\<rparr>, None), r3))) \<and>
    resourceSynapseWorkspaceAADAdminCreateUpdate hp' cl' d v = (Returned None, d', v')
    \<longrightarrow>
    d_Get d' ''login'' = d_Get d ''login'' \<and>
    d_Get d' ''object_id'' = d_Get d ''object_id'' \<and>
    d_Get d' ''tenant_id'' = d_Get d ''tenant_id'' \<and>
    d_Get d' ''synapse_workspace_id'' = WorkspaceId_ID hp' workspaceId \<and>
    d_Id d' = WorkspaceAADAdminId_ID hp' adminId)"
  apply (rule conjI; rule impI; elim conjE)
   apply (rule ContainerApp_round_trip; assumption)
  apply (rule Synapse_round_trip; assumption)
  done

theorem create_then_read_round_trip_witness:
  "ContainerAppEnvironmentResource_Create example_Helpers store_Client (example_metadata example_config) empty_world =
     (Returned None,
      example_metadata_stored,
      \<lparr>remote = \<lparr>environments = [example_environment_id \<mapsto> example_request], admins = Map.empty\<rparr>,
       calls = [(ManagedEnvironments_Get example_environment_id, Some ''ResourceNotFound''),
                (Workspaces_Get ''rg1'' ''law1'', None),
                (SharedKeys_GetSharedKeys ''rg1'' ''law1'', None),
                (ManagedEnvironments_CreateOrUpdateThenPoll example_environment_id example_request, None)]\<rparr>) \<and>
   ContainerAppEnvironmentResource_Read example_Helpers store_Client example_metadata_stored
     \<lparr>remote = \<lparr>environments = [example_environment_id \<mapsto> example_request], admins = Map.empty\<rparr>,
      calls = [(ManagedEnvironments_Get example_environment_id, Some ''ResourceNotFound''),
               (Workspaces_Get ''rg1'' ''law1'', None),
               (SharedKeys_GetSharedKeys ''rg1'' ''law1'', None),
               (ManagedEnvironments_CreateOrUpdateThenPoll example_environment_id example_request, None)]\<rparr> =
     (Returned None,
      example_metadata_stored\<lparr>ResourceData_values := example_config\<lparr>Location := ''westeurope''\<rparr>\<rparr>,
      \<lparr>remote = \<lparr>environments = [example_environment_id \<mapsto> example_request], admins = Map.empty\<rparr>,
       calls = [(ManagedEnvironments_Get example_environment_id, Some ''ResourceNotFound''),
                (Workspaces_Get ''rg1'' ''law1'', None),
                (SharedKeys_GetSharedKeys ''rg1'' ''law1'', None),
                (ManagedEnvironments_CreateOrUpdateThenPoll example_environment_id example_request, None),
                (ManagedEnvironments_Get example_environment_id, None)]\<rparr>) \<and>
   Location example_config = ''west europe'' \<and>
   location_Normalize example_Helpers ''west europe'' = ''westeurope'' \<and>
   InfrastructureSubnetId example_config = ''subnet1'' \<and>
   InternalLoadBalancerEnabled example_config \<and>
   InternalLoadBalancerEnabled (ResourceData_values
     (example_metadata_stored\<lparr>ResourceData_values := example_config\<lparr>Location := ''westeurope''\<rparr>\<rparr>)) \<and>
   resourceSynapseWorkspaceAADAdminCreateUpdate example_Helpers store_Client example_d empty_world =
     (Returned None, example_d_stored,
      \<lparr>remote = \<lparr>environments = Map.empty,
                 admins = [(''rg1'', ''ws1'') \<mapsto> Some
                   \<lparr>TenantID = Some ''00000000-0000-0000-0000-000000000002'',
                    Login = Some ''admin'',
                    AdministratorType = Some ''ActiveDirectory'',
                    Sid = Some ''00000000-0000-0000-0000-000000000001''\<rparr>]\<rparr>,
       calls = [(WorkspaceAadAdmins_CreateOrUpdate ''rg1'' ''ws1''
                   \<lparr>Response = None, info_AadAdminProperties = Some
                     \<lparr>TenantID = Some ''00000000-0000-0000-0000-000000000002'',
                      Login = Some ''admin'',
                      AdministratorType = Some ''ActiveDirectory'',
                      Sid = Some ''00000000-0000-0000-0000-000000000001''\<rparr>\<rparr>, None),
                (Future_WaitForCompletionRef 0, None),
                (WorkspaceAadAdmins_Get ''rg1'' ''ws1'', None)]\<rparr>) \<and>
   d_Get example_d_stored ''login'' = d_Get example_d ''login'' \<and>
   d_Get example_d ''login'' = ''admin'' \<and>
   d_Get example_d_stored ''synapse_workspace_id'' = WorkspaceId_ID example_Helpers example_workspace_id"
proof -
  let ?w1 = "\<lparr>remote = \<lparr>environments = [example_environment_id \<mapsto> example_request], admins = Map.empty\<rparr>,
      calls = [(ManagedEnvironments_Get example_environment_id, Some ''ResourceNotFound''),
               (Workspaces_Get ''rg1'' ''law1'', None),
               (SharedKeys_GetSharedKeys ''rg1'' ''law1'', None),
               (ManagedEnvironments_CreateOrUpdateThenPoll example_environment_id example_request, None)]\<rparr>"
  let ?md2 = "example_metadata_stored\<lparr>ResourceData_values := example_config\<lparr>Location := ''westeurope''\<rparr>\<rparr>"
  have dec: "Decode (example_metadata example_config) = Inr example_config"
    by (simp add: Decode_def example_metadata_def)
  have ident: "example_environment_id =
      NewManagedEnvironmentID (Account_SubscriptionId (example_metadata example_config))
        (ResourceGroup example_config) (Name example_config)"
    by (simp add: example_defs NewManagedEnvironmentID_def)
  have parse: "ParseManagedEnvironmentID example_Helpers
      (ManagedEnvironmentId_ID example_Helpers example_environment_id) = Inr example_environment_id"
    by (simp add: example_defs NewManagedEnvironmentID_def)
  have stored: "\<forall>input r r'.
      ManagedEnvironmentClient_CreateOrUpdateThenPoll store_Client example_environment_id input r = (None, r') \<longrightarrow>
      (\<exists>resp r''. ManagedEnvironmentClient_Get store_Client example_environment_id r' =
         ((\<lparr>HttpResponse = resp, Model = Some input\<rparr>, None), r''))"
    by (auto simp: store_Client_def)
  have enc: "encode_error (example_metadata example_config) = None"
    by (simp add: example_metadata_def)
  have syn_parse: "parse_WorkspaceID example_Helpers (d_Get example_d ''synapse_workspace_id'') = Inr example_workspace_id"
    by (simp add: example_defs d_Get_def)
  have syn_ident: "example_admin_id =
      NewWorkspaceAADAdminID (wid_SubscriptionId example_workspace_id) (wid_ResourceGroup example_workspace_id)
        (wid_Name example_workspace_id) ''activeDirectory''"
    by (simp add: example_defs NewWorkspaceID_def NewWorkspaceAADAdminID_def)
  have syn_parse_admin: "parse_WorkspaceAADAdminID example_Helpers
      (WorkspaceAADAdminId_ID example_Helpers example_admin_id) = Inr example_admin_id"
    by (simp add: example_defs NewWorkspaceAADAdminID_def)
  have syn_stored: "\<forall>aadAdmin r fut r1 r2.
      WorkspaceAadAdminsClient_CreateOrUpdate store_Client (wid_ResourceGroup example_workspace_id)
          (wid_Name example_workspace_id) aadAdmin r = ((fut, None), r1) \<and>
      WaitForCompletionRef store_Client fut r1 = (None, r2) \<longrightarrow>
      (\<exists>resp r3. WorkspaceAadAdminsClient_Get store_Client (wid_ResourceGroup example_workspace_id)
          (wid_Name example_workspace_id) r2 =
         ((\<lparr>Response = resp, info_AadAdminProperties = info_AadAdminProperties aadAdmin\<rparr>, None), r3))"
    by (auto simp: store_Client_def)
  have ca_hyps:
    "Decode (example_metadata example_config) = Inr example_config \<and>
     example_environment_id =
       NewManagedEnvironmentID (Account_SubscriptionId (example_metadata example_config))
         (ResourceGroup example_config) (Name example_config) \<and>
     ParseManagedEnvironmentID example_Helpers
       (ManagedEnvironmentId_ID example_Helpers example_environment_id) = Inr example_environment_id \<and>
     (\<forall>input r r'.
       ManagedEnvironmentClient_CreateOrUpdateThenPoll store_Client example_environment_id input r = (None, r') \<longrightarrow>
       (\<exists>resp r''. ManagedEnvironmentClient_Get store_Client example_environment_id r' =
          ((\<lparr>HttpResponse = resp, Model = Some input\<rparr>, None), r''))) \<and>
     encode_error (example_metadata example_config) = None \<and>
     ContainerAppEnvironmentResource_Create example_Helpers store_Client (example_metadata example_config) empty_world =
       (Returned None, example_metadata_stored, ?w1) \<and>
     ContainerAppEnvironmentResource_Read example_Helpers store_Client example_metadata_stored ?w1 =
       (Returned None, ?md2,
        \<lparr>remote = \<lparr>environments = [example_environment_id \<mapsto> example_request], admins = Map.empty\<rparr>,
         calls = [(ManagedEnvironments_Get example_environment_id, Some ''ResourceNotFound''),
                  (Workspaces_Get ''rg1'' ''law1'', None),
                  (SharedKeys_GetSharedKeys ''rg1'' ''law1'', None),
                  (ManagedEnvironments_CreateOrUpdateThenPoll example_environment_id example_request, None),
                  (ManagedEnvironments_Get example_environment_id, None)]\<rparr>)"
    by (intro conjI) (rule dec ident parse stored enc run_Create_example run_Read_after_Create)+
  have syn_hyps:
    "parse_WorkspaceID example_Helpers (d_Get example_d ''synapse_workspace_id'') = Inr example_workspace_id \<and>
     example_admin_id =
       NewWorkspaceAADAdminID (wid_SubscriptionId example_workspace_id) (wid_ResourceGroup example_workspace_id)
         (wid_Name example_workspace_id) ''activeDirectory'' \<and>
     parse_WorkspaceAADAdminID example_Helpers
       (WorkspaceAADAdminId_ID example_Helpers example_admin_id) = Inr example_admin_id \<and>
     (\<forall>aadAdmin r fut r1 r2.
       WorkspaceAadAdminsClient_CreateOrUpdate store_Client (wid_ResourceGroup example_workspace_id)
           (wid_Name example_workspace_id) aadAdmin r = ((fut, None), r1) \<and>
       WaitForCompletionRef store_Client fut r1 = (None, r2) \<longrightarrow>
       (\<exists>resp r3. WorkspaceAadAdminsClient_Get store_Client (wid_ResourceGroup example_workspace_id)
           (wid_Name example_workspace_id) r2 =
          ((\<lparr>Response = resp, info_AadAdminProperties = info_AadAdminProperties aadAdmin\<rparr>, None), r3))) \<and>
     resourceSynapseWorkspaceAADAdminCreateUpdate example_Helpers store_Client example_d empty_world =
       (Returned None, example_d_stored,
        \<lparr>remote = \<lparr>environments = Map.empty,
                 admins = [(''rg1'', ''ws1'') \<mapsto> Some
                   \<lparr>TenantID = Some ''00000000-0000-0000-0000-000000000002'',
                    Login = Some ''admin'',
                    AdministratorType = Some ''ActiveDirectory'',
                    Sid = Some ''00000000-0000-0000-0000-000000000001''\<rparr>]\<rparr>,
         calls = [(WorkspaceAadAdmins_CreateOrUpdate ''rg1'' ''ws1''
                   \<lparr>Response = None, info_AadAdminProperties = Some
                     \<lparr>TenantID = Some ''00000000-0000-0000-0000-000000000002'',
                      Login = Some ''admin'',
                      AdministratorType = Some ''ActiveDirectory'',
                      Sid = Some ''00000000-0000-0000-0000-000000000001''\<rparr>\<rparr>, None),
                (Future_WaitForCompletionRef 0, None),
                (WorkspaceAadAdmins_Get ''rg1'' ''ws1'', None)]\<rparr>)"
    by (intro conjI) (rule syn_parse syn_ident syn_parse_admin syn_stored run_Synapse_CreateUpdate)+
  from create_then_read_round_trip [THEN conjunct1, THEN mp, OF ca_hyps]
  have ca: "InternalLoadBalancerEnabled (ResourceData_values ?md2) =
      (InfrastructureSubnetId example_config \<noteq> [] \<and> InternalLoadBalancerEnabled example_config)"
    by blast
  from create_then_read_round_trip [THEN conjunct2, THEN mp, OF syn_hyps]
  have syn: "d_Get example_d_stored ''login'' = d_Get example_d ''login''"
      "d_Get example_d_stored ''synapse_workspace_id'' = WorkspaceId_ID example_Helpers example_workspace_id"
    by blast+
  have cfg: "Location example_config = ''west europe''"
      "location_Normalize example_Helpers ''west europe'' = ''westeurope''"
      "InfrastructureSubnetId example_config = ''subnet1''"
      "InternalLoadBalancerEnabled example_config"
      "d_Get example_d ''login'' = ''admin''"
    by (simp_all add: example_config_def example_Helpers_def example_d_def d_Get_def)
  have ilb: "InternalLoadBalancerEnabled (ResourceData_values ?md2)"
    using ca cfg by simp
  show ?thesis
    by (intro conjI) (rule run_Create_example run_Read_after_Create cfg ilb run_Synapse_CreateUpdate syn)+
qed

text \<open>
  Claim C4 as stated fails for \<open>internal_load_balancer_enabled\<close>: configured as true with
  no subnet ID, it is not sent by \<open>Create\<close>, and \<open>Read\<close> of what the service stored
  gives false.
\<close>

theorem round_trip_loses_internal_load_balancer:
  "InfrastructureSubnetId example_config_no_subnet = [] \<and>
   InternalLoadBalancerEnabled example_config_no_subnet \<and>
   ContainerAppEnvironmentResource_Create example_Helpers store_Client
       (example_metadata example_config_no_subnet) empty_world =
     (Returned None,
      (example_metadata example_config_no_subnet)\<lparr>ResourceData_Id :=
        ''/subscriptions/sub1/resourceGroups/rg1/providers/Microsoft.App/managedEnvironments/env1''\<rparr>,
      \<lparr>remote = \<lparr>environments = [example_environment_id \<mapsto> example_request_no_subnet], admins = Map.empty\<rparr>,
       calls = [(ManagedEnvironments_Get example_environment_id, Some ''ResourceNotFound''),
                (Workspaces_Get ''rg1'' ''law1'', None),
                (SharedKeys_GetSharedKeys ''rg1'' ''law1'', None),
                (ManagedEnvironments_CreateOrUpdateThenPoll example_environment_id example_request_no_subnet, None)]\<rparr>) \<and>
   fst (ContainerAppEnvironmentResource_Read example_Helpers store_Client
     ((example_metadata example_config_no_subnet)\<lparr>ResourceData_Id :=
        ''/subscriptions/sub1/resourceGroups/rg1/providers/Microsoft.App/managedEnvironments/env1''\<rparr>)
     \<lparr>remote = \<lparr>environments = [example_environment_id \<mapsto> example_request_no_subnet], admins = Map.empty\<rparr>,
      calls = [(ManagedEnvironments_Get example_environment_id, Some ''ResourceNotFound''),
               (Workspaces_Get ''rg1'' ''law1'', None),
               (SharedKeys_GetSharedKeys ''rg1'' ''law1'', None),
               (ManagedEnvironments_CreateOrUpdateThenPoll example_environment_id example_request_no_subnet, None)]\<rparr>)
     = Returned None \<and>
   \<not> InternalLoadBalancerEnabled (ResourceData_values (fst (snd
     (ContainerAppEnvironmentResource_Read example_Helpers store_Client
     ((example_metadata example_config_no_subnet)\<lparr>ResourceData_Id :=
        ''/subscriptions/sub1/resourceGroups/rg1/providers/Microsoft.App/managedEnvironments/env1''\<rparr>)
     \<lparr>remote = \<lparr>environments = [example_environment_id \<mapsto> example_request_no_subnet], admins = Map.empty\<rparr>,
      calls = [(ManagedEnvironments_Get example_environment_id, Some ''ResourceNotFound''),
               (Workspaces_Get ''rg1'' ''law1'', None),
               (SharedKeys_GetSharedKeys ''rg1'' ''law1'', None),
               (ManagedEnvironments_CreateOrUpdateThenPoll example_environment_id example_request_no_subnet, None)]\<rparr>))))"
  by (simp add: run_Create_example_no_subnet run_Read_after_Create_no_subnet)
     (simp add: example_defs)

end
